theory Spec2Isabelle
  imports Complex_Main "HOL-Library.Multiset" "HOL-Library.Product_Lexorder"
begin

section \<open>Data model of scaffold/connectivity.py\<close>

text \<open>
  Every population is an N x 5 array of floats whose rows the strategies unpack
  as \<^verbatim>\<open>id, type, x, y, z\<close>. Finite floats are idealised as reals: the claims
  checked here are about which rows are selected and which ids are emitted, not about rounding.
  An edge list is an M x 2 float array, one row \<^verbatim>\<open>[from, to]\<close> per edge. A row number and a
  first id are added as integers without a bound: an array has far fewer than \<open>2^63\<close> rows.
\<close>

record cell =
  cid :: real
  ctype :: real
  cx :: real
  cy :: real
  cz :: real

type_synonym edge = "real \<times> real"

text \<open>The exceptions the modelled code can raise.\<close>

datatype pyerr =
    IndexError
  | ValueError
  | TypeError
  | NameError string
  | UnboundLocalError string
  | KeyError
  | SupplyException

text \<open>Python's \<^verbatim>\<open>int(x)\<close> on a float: truncation towards zero, into an integer without a bound.\<close>

definition py_int :: "real \<Rightarrow> int" where
  "py_int x = (if 0 \<le> x then \<lfloor>x\<rfloor> else \<lceil>x\<rceil>)"

text \<open>
  numpy's \<^verbatim>\<open>a.astype(int)\<close> and \<^verbatim>\<open>np.array(a, dtype=int)\<close> on a float: truncation towards zero
  into a 64-bit integer; a float whose truncation does not fit becomes \<open>- 2^63\<close>.
\<close>

definition np_astype_int :: "real \<Rightarrow> int" where
  "np_astype_int x =
     (let t = py_int x in if - (2 ^ 63) \<le> t \<and> t < 2 ^ 63 then t else - (2 ^ 63))"

text \<open>
  A division of floats in numpy does not raise: a quotient by zero is an infinity, or
  not-a-number when the dividend is zero too. Only quotients are modelled with these values;
  the zero of a divisor is taken to be the positive zero.
\<close>

datatype npfloat = Finite real | PosInf | NegInf | NaN

definition np_div :: "real \<Rightarrow> real \<Rightarrow> npfloat" where
  "np_div x d =
     (if d \<noteq> 0 then Finite (x / d)
      else if x > 0 then PosInf
      else if x < 0 then NegInf
      else NaN)"

text \<open>\<^verbatim>\<open>ra > t\<close> for a finite float \<open>ra\<close>: every comparison with not-a-number is false.\<close>

fun np_gt :: "real \<Rightarrow> npfloat \<Rightarrow> bool" where
  "np_gt ra (Finite v) = (ra > v)"
| "np_gt ra PosInf = False"
| "np_gt ra NegInf = True"
| "np_gt ra NaN = False"

text \<open>The order in which numpy sorts floats: by value, not-a-number last.\<close>

fun np_sort_key :: "npfloat \<Rightarrow> nat \<times> real" where
  "np_sort_key NegInf = (0, 0)"
| "np_sort_key (Finite v) = (1, v)"
| "np_sort_key PosInf = (2, 0)"
| "np_sort_key NaN = (3, 0)"

text \<open>\<^verbatim>\<open>np.where(v)[0]\<close>: the row numbers at which a boolean vector is true, ascending.\<close>

definition np_where :: "bool list \<Rightarrow> nat list" where
  "np_where bs = filter (\<lambda>i. bs ! i) [0..<length bs]"

text \<open>Fancy indexing \<^verbatim>\<open>a[idx]\<close> with in-range row numbers.\<close>

definition rows_at :: "'a list \<Rightarrow> nat list \<Rightarrow> 'a list" where
  "rows_at a idx = map (\<lambda>i. a ! i) idx"

text \<open>
  An elementwise operation on two vectors with numpy's broadcasting: vectors of the same length
  are combined entry by entry, a vector of length one is stretched, and any other pair of
  lengths raises ValueError.
\<close>

definition np_broadcast :: "('a \<Rightarrow> 'b \<Rightarrow> 'c) \<Rightarrow> 'a list \<Rightarrow> 'b list \<Rightarrow> pyerr + 'c list" where
  "np_broadcast f a b =
     (if length a = length b then Inr (map2 f a b)
      else if length a = 1 then Inr (map (f (a ! 0)) b)
      else if length b = 1 then Inr (map (\<lambda>x. f x (b ! 0)) a)
      else Inl ValueError)"

subsection \<open>The process-wide random generator\<close>

text \<open>
  The generator is an explicit state: a supply of raw draws for permutations and a supply
  of raw draws for uniform numbers. An exhausted supply yields 0. Quantifying over the
  state quantifies over every outcome of the random draws. The state carries a third supply
  that is not random: it decides what numpy leaves open, the order in which \<^verbatim>\<open>argsort\<close>
  returns rows with equal keys.
\<close>

record rng =
  perm_draws :: "nat list"
  unif_draws :: "real list"
  tie_draws :: "nat list"

text \<open>\<^verbatim>\<open>np.random.random()\<close> and \<^verbatim>\<open>np.random.rand()\<close>: a float in the half-open interval [0, 1).\<close>

definition np_random :: "rng \<Rightarrow> real \<times> rng" where
  "np_random g =
     (case unif_draws g of
        [] \<Rightarrow> (0, g)
      | u # us \<Rightarrow> (frac u, g\<lparr>unif_draws := us\<rparr>))"

text \<open>\<^verbatim>\<open>np.random.uniform(size=n)\<close>: \<open>n\<close> successive draws from [0, 1).\<close>

fun np_uniform :: "nat \<Rightarrow> rng \<Rightarrow> real list \<times> rng" where
  "np_uniform 0 g = ([], g)"
| "np_uniform (Suc n) g =
     (let (u, g1) = np_random g; (us, g2) = np_uniform n g1 in (u # us, g2))"

fun insert_at :: "nat \<Rightarrow> 'a \<Rightarrow> 'a list \<Rightarrow> 'a list" where
  "insert_at 0 x ys = x # ys"
| "insert_at (Suc k) x [] = [x]"
| "insert_at (Suc k) x (y # ys) = y # insert_at k x ys"

text \<open>A shuffle driven by raw draws: each element goes to a drawn position of the shuffled rest.\<close>

fun shuffle :: "nat list \<Rightarrow> 'a list \<Rightarrow> 'a list" where
  "shuffle ds [] = []"
| "shuffle ds (x # xs) =
     insert_at (case ds of [] \<Rightarrow> 0 | d # _ \<Rightarrow> d mod Suc (length xs)) x (shuffle (tl ds) xs)"

text \<open>\<^verbatim>\<open>np.random.permutation(a)\<close>: a shuffled copy of \<open>a\<close>; the argument is not modified.\<close>

definition np_permutation :: "'a list \<Rightarrow> rng \<Rightarrow> 'a list \<times> rng" where
  "np_permutation a g =
     (shuffle (perm_draws g) a, g\<lparr>perm_draws := drop (length a) (perm_draws g)\<rparr>)"

text \<open>
  \<^verbatim>\<open>np.random.choice(a, size, replace=False)\<close>: the first \<open>size\<close> entries of a permutation
  of \<open>a\<close>; numpy raises ValueError when the size is negative and when the sample is larger
  than the population.
\<close>

definition np_choice :: "'a list \<Rightarrow> int \<Rightarrow> rng \<Rightarrow> (pyerr + 'a list) \<times> rng" where
  "np_choice a sz g =
     (if sz < 0 \<or> int (length a) < sz then (Inl ValueError, g)
      else (let (p, g1) = np_permutation a g in (Inr (take (nat sz) p), g1)))"

text \<open>
  \<^verbatim>\<open>v.argsort()\<close>: the row numbers of \<open>v\<close> ordered by ascending key. numpy's default sort is not
  stable, so rows with equal keys come in an order the code does not control: the row numbers
  are first rearranged as the draws \<open>ties\<close> say and then sorted stably, which reaches every
  order of the rows with equal keys.
\<close>

definition argsort :: "nat list \<Rightarrow> 'k :: linorder list \<Rightarrow> nat list" where
  "argsort ties ks = sort_key (\<lambda>i. ks ! i) (shuffle ties [0..<length ks])"

definition np_argsort :: "'k :: linorder list \<Rightarrow> rng \<Rightarrow> nat list \<times> rng" where
  "np_argsort ks g = (argsort (tie_draws g) ks, g\<lparr>tie_draws := drop (length ks) (tie_draws g)\<rparr>)"

section \<open>ConnectomeGlomerulusGranule\<close>

text \<open>
  The value numpy computes per glomerulus in \<^verbatim>\<open>distance_vector\<close>: the squared distance to the
  granule cell minus the squared dendrite length.
\<close>

definition glom_grc_distance :: "real \<Rightarrow> cell \<Rightarrow> cell \<Rightarrow> real" where
  "glom_grc_distance dend_len gran glom =
     (cx glom - cx gran)\<^sup>2 + (cy glom - cy gran)\<^sup>2 + (cz glom - cz gran)\<^sup>2 - dend_len\<^sup>2"

text \<open>\<^verbatim>\<open>good_gloms\<close>: the candidate rows of one granule cell.\<close>

definition good_gloms :: "cell list \<Rightarrow> real \<Rightarrow> cell \<Rightarrow> nat list" where
  "good_gloms glomeruli dend_len gran =
     np_where (map (\<lambda>glom. glom_grc_distance dend_len gran glom < 0) glomeruli)"

text \<open>The body of the loop over the granule cells: the edges written for one granule cell.\<close>

definition glom_grc_row ::
  "int \<Rightarrow> cell list \<Rightarrow> real \<Rightarrow> nat \<Rightarrow> cell \<Rightarrow> rng \<Rightarrow> edge list \<times> rng" where
  "glom_grc_row first_glomerulus glomeruli dend_len n_conn_glom gran g =
     (let distance_vector = map (glom_grc_distance dend_len gran) glomeruli;
          good = good_gloms glomeruli dend_len gran;
          good_gloms_len = length good;
          (connected_gloms, connected_glom_len, g1) =
            (if good_gloms_len > n_conn_glom
             then (let gloms_distance = rows_at distance_vector good;
                       (order, g1) = np_argsort gloms_distance g
                   in (rows_at good order, n_conn_glom, g1))
             else (good, good_gloms_len, g))
      in (map (\<lambda>i. (real (connected_gloms ! i) + real_of_int first_glomerulus, cid gran))
            [0..<connected_glom_len], g1))"

text \<open>
  The loop of \<^verbatim>\<open>connectome_glom_grc\<close>: the rows are written one granule cell after the other
  into a preallocated array of \<open>len(granules) * n_conn_glom\<close> rows, which is then truncated to
  the rows written.
\<close>

fun glom_grc_loop ::
  "int \<Rightarrow> cell list \<Rightarrow> real \<Rightarrow> nat \<Rightarrow> cell list \<Rightarrow> edge list \<Rightarrow> rng \<Rightarrow> edge list" where
  "glom_grc_loop first_glomerulus glomeruli dend_len n_conn_glom [] results g = results"
| "glom_grc_loop first_glomerulus glomeruli dend_len n_conn_glom (gran # granules) results g =
     (let (rows, g1) = glom_grc_row first_glomerulus glomeruli dend_len n_conn_glom gran g
      in glom_grc_loop first_glomerulus glomeruli dend_len n_conn_glom granules (results @ rows) g1)"

definition connectome_glom_grc ::
  "int \<Rightarrow> cell list \<Rightarrow> cell list \<Rightarrow> real \<Rightarrow> nat \<Rightarrow> rng \<Rightarrow> edge list" where
  "connectome_glom_grc first_glomerulus glomeruli granules dend_len n_conn_glom g =
     glom_grc_loop first_glomerulus glomeruli dend_len n_conn_glom granules [] g"

text \<open>
  \<^verbatim>\<open>ConnectomeGlomerulusGranule.connect\<close>: reads the id of the first glomerulus
  (\<^verbatim>\<open>glomeruli[0,0]\<close>, an IndexError on an empty array) before it runs the legacy block. The
  value is the edge list handed to \<^verbatim>\<open>scaffold.connect_cells\<close>.
\<close>

definition glom_grc_connect ::
  "cell list \<Rightarrow> cell list \<Rightarrow> real \<Rightarrow> nat \<Rightarrow> rng \<Rightarrow> pyerr + edge list" where
  "glom_grc_connect glomeruli granules dend_len n_conn_glom g =
     (case glomeruli of
        [] \<Rightarrow> Inl IndexError
      | c # _ \<Rightarrow> Inr (connectome_glom_grc (py_int (cid c)) glomeruli granules dend_len n_conn_glom g))"

section \<open>ConnectomeGlomerulusGolgi\<close>

text \<open>
  \<^verbatim>\<open>volume_matrix\<close> of \<^verbatim>\<open>connectome_glom_goc\<close>: the glomerulus lies within \<open>r_goc_vol\<close> of the
  Golgi cell and not above it.
\<close>

definition glom_goc_volume :: "real \<Rightarrow> cell \<Rightarrow> cell \<Rightarrow> bool" where
  "glom_goc_volume r_goc_vol golgi glom =
     ((cx glom - cx golgi)\<^sup>2 + (cy glom - cy golgi)\<^sup>2 + (cz glom - cz golgi)\<^sup>2 - r_goc_vol\<^sup>2 \<le> 0 \<and>
      cy glom \<le> cy golgi)"

definition connectome_glom_goc :: "int \<Rightarrow> cell list \<Rightarrow> cell list \<Rightarrow> real \<Rightarrow> edge list" where
  "connectome_glom_goc first_glomerulus glomeruli golgicells r_goc_vol =
     concat (map (\<lambda>golgi.
                let good_gloms = np_where (map (glom_goc_volume r_goc_vol golgi) glomeruli)
                in map (\<lambda>k. (real k + real_of_int first_glomerulus, cid golgi)) good_gloms)
            golgicells)"

section \<open>ConnectomeGlomDCN\<close>

text \<open>
  \<^verbatim>\<open>connectome_glom_dcn\<close>: every DCN cell draws \<open>conv_dcn\<close> distinct glomerulus ids from the
  whole glomerulus population; there is no geometric gate.
\<close>

fun glom_dcn_loop ::
  "cell list \<Rightarrow> nat \<Rightarrow> cell list \<Rightarrow> edge list \<Rightarrow> rng \<Rightarrow> pyerr + edge list" where
  "glom_dcn_loop glomeruli conv_dcn [] glom_dcn g = Inr glom_dcn"
| "glom_dcn_loop glomeruli conv_dcn (i # dcn_glut) glom_dcn g =
     (case np_choice (map cid glomeruli) (int conv_dcn) g of
        (Inl e, _) \<Rightarrow> Inl e
      | (Inr connected_gloms, g1) \<Rightarrow>
          glom_dcn_loop glomeruli conv_dcn dcn_glut
            (glom_dcn @ map (\<lambda>c. (real_of_int (np_astype_int c), cid i)) connected_gloms) g1)"

definition connectome_glom_dcn ::
  "int \<Rightarrow> cell list \<Rightarrow> cell list \<Rightarrow> nat \<Rightarrow> rng \<Rightarrow> pyerr + edge list" where
  "connectome_glom_dcn first_glomerulus glomeruli dcn_glut conv_dcn g =
     glom_dcn_loop glomeruli conv_dcn dcn_glut [] g"

section \<open>ConnectomeGapJunctions\<close>

text \<open>\<^verbatim>\<open>constraint_vector\<close> of \<^verbatim>\<open>gap_junctions\<close>, for the cell \<open>c\<close> of the outer loop and a row \<open>j\<close>.\<close>

definition gj_constraint :: "real \<Rightarrow> real \<Rightarrow> cell \<Rightarrow> cell \<Rightarrow> bool" where
  "gj_constraint d_xy d_z c j =
     (\<bar>cz j - cz c\<bar> < d_z \<and> \<bar>cz j - cz c\<bar> \<noteq> 0 \<and>
      sqrt ((cx j - cx c)\<^sup>2 + (cy j - cy c)\<^sup>2) < d_xy)"

text \<open>The acceptance test on the random number \<open>ra\<close>.\<close>

definition gj_accept :: "real \<Rightarrow> real \<Rightarrow> cell \<Rightarrow> cell \<Rightarrow> real \<Rightarrow> bool" where
  "gj_accept d_xy d_z c j ra =
     (np_gt ra (np_div \<bar>cz j - cz c\<bar> d_z) \<and>
      np_gt ra (np_div (sqrt ((cx j - cx c)\<^sup>2 + (cy j - cy c)\<^sup>2)) d_xy))"

text \<open>The loop over the candidates of one cell; \<open>idx\<close> starts at 1.\<close>

fun gj_walk ::
  "real \<Rightarrow> real \<Rightarrow> nat \<Rightarrow> cell \<Rightarrow> cell list \<Rightarrow> nat \<Rightarrow> edge list \<Rightarrow> rng \<Rightarrow> edge list \<times> rng" where
  "gj_walk d_xy d_z dc_gj c [] idx gj_sc g = (gj_sc, g)"
| "gj_walk d_xy d_z dc_gj c (j # candidates) idx gj_sc g =
     (if idx \<le> dc_gj then
        (let (ra, g1) = np_random g in
         if gj_accept d_xy d_z c j ra
         then gj_walk d_xy d_z dc_gj c candidates (idx + 1) (gj_sc @ [(cid c, cid j)]) g1
         else gj_walk d_xy d_z dc_gj c candidates idx gj_sc g1)
      else gj_walk d_xy d_z dc_gj c candidates idx gj_sc g)"

text \<open>The loop over the cells; \<open>cells\<close> is the whole array, the third list the rows still to visit.\<close>

fun gj_cells_loop ::
  "real \<Rightarrow> real \<Rightarrow> nat \<Rightarrow> cell list \<Rightarrow> cell list \<Rightarrow> edge list \<Rightarrow> rng \<Rightarrow> edge list \<times> rng" where
  "gj_cells_loop d_xy d_z dc_gj cells [] gj_sc g = (gj_sc, g)"
| "gj_cells_loop d_xy d_z dc_gj cells (c # todo) gj_sc g =
     (let good_sc = np_where (map (gj_constraint d_xy d_z c) cells);
          (chosen_rand, g1) = np_permutation good_sc g;
          candidates = rows_at cells chosen_rand;
          (gj_sc1, g2) = gj_walk d_xy d_z dc_gj c candidates 1 gj_sc g1
      in gj_cells_loop d_xy d_z dc_gj cells todo gj_sc1 g2)"

definition gap_junctions :: "cell list \<Rightarrow> real \<Rightarrow> real \<Rightarrow> nat \<Rightarrow> rng \<Rightarrow> edge list" where
  "gap_junctions cells d_xy d_z dc_gj g = fst (gj_cells_loop d_xy d_z dc_gj cells cells [] g)"

text \<open>
  \<^verbatim>\<open>ConnectomeGapJunctions.connect\<close>: reads \<^verbatim>\<open>from_cells[0, 0]\<close> into \<^verbatim>\<open>first_cell\<close> (a value the
  legacy block never uses) before it calls \<^verbatim>\<open>gap_junctions\<close>.
\<close>

definition gap_junctions_connect ::
  "cell list \<Rightarrow> real \<Rightarrow> real \<Rightarrow> nat \<Rightarrow> rng \<Rightarrow> pyerr + edge list" where
  "gap_junctions_connect from_cells limit_xy limit_z divergence g =
     (case from_cells of
        [] \<Rightarrow> Inl IndexError
      | c # _ \<Rightarrow> Inr (gap_junctions from_cells limit_xy limit_z divergence g))"

section \<open>ConnectomeGapJunctionsGolgi\<close>

text \<open>\<^verbatim>\<open>bool_vector\<close> of \<^verbatim>\<open>connectome_gj_goc\<close> for the Golgi cell \<open>i\<close> at row \<open>self_index\<close>.\<close>

definition gj_goc_bool_vector ::
  "real \<Rightarrow> real \<Rightarrow> real \<Rightarrow> real \<Rightarrow> cell list \<Rightarrow> nat \<Rightarrow> cell \<Rightarrow> bool list" where
  "gj_goc_bool_vector r_goc_vol GoCaxon_x GoCaxon_y GoCaxon_z golgicells self_index i =
     (let bool_vector = map (\<lambda>c. \<bar>cx c - cx i\<bar> \<le> r_goc_vol + GoCaxon_x / 2) golgicells;
          bool_vector = bool_vector[self_index := False];
          bool_vector = map2 (\<and>) bool_vector
                          (map (\<lambda>c. \<bar>cy c - cy i\<bar> \<le> r_goc_vol + GoCaxon_y / 2) golgicells);
          bool_vector = map2 (\<and>) bool_vector
                          (map (\<lambda>c. \<bar>cz c - cz i\<bar> \<le> r_goc_vol + GoCaxon_z / 2) golgicells)
      in bool_vector)"

text \<open>
  The loop over the Golgi cells. The second column of a written row is \<^verbatim>\<open>good_goc\<close>, the row
  numbers that \<^verbatim>\<open>np.where\<close> returned; \<^verbatim>\<open>first_golgi\<close> is a parameter the body never reads.
\<close>

fun gj_goc_loop ::
  "real \<Rightarrow> real \<Rightarrow> real \<Rightarrow> real \<Rightarrow> cell list \<Rightarrow> cell list \<Rightarrow> nat \<Rightarrow> edge list \<Rightarrow> edge list" where
  "gj_goc_loop r_goc_vol GoCaxon_x GoCaxon_y GoCaxon_z golgicells [] self_index gj_goc = gj_goc"
| "gj_goc_loop r_goc_vol GoCaxon_x GoCaxon_y GoCaxon_z golgicells (i # todo) self_index gj_goc =
     (let good_goc = np_where
            (gj_goc_bool_vector r_goc_vol GoCaxon_x GoCaxon_y GoCaxon_z golgicells self_index i)
      in gj_goc_loop r_goc_vol GoCaxon_x GoCaxon_y GoCaxon_z golgicells todo (self_index + 1)
           (gj_goc @ map (\<lambda>k. (cid i, real k)) good_goc))"

text \<open>
  \<^verbatim>\<open>connectome_gj_goc\<close> returns \<^verbatim>\<open>gj_goc[0:end_index]\<close>; \<^verbatim>\<open>end_index\<close> is assigned only in the
  loop body, so with no Golgi cell the return statement reads an unbound local.
\<close>

definition connectome_gj_goc ::
  "real \<Rightarrow> real \<Rightarrow> real \<Rightarrow> real \<Rightarrow> cell list \<Rightarrow> int \<Rightarrow> pyerr + edge list" where
  "connectome_gj_goc r_goc_vol GoCaxon_x GoCaxon_y GoCaxon_z golgicells first_golgi =
     (if golgicells = [] then Inl (UnboundLocalError ''end_index'')
      else Inr (gj_goc_loop r_goc_vol GoCaxon_x GoCaxon_y GoCaxon_z golgicells golgicells 0 []))"

section \<open>ConnectomeGolgiGranule\<close>

text \<open>\<^verbatim>\<open>goc_glom[goc_glom[:, 0] == golgi_id, 1]\<close>: the glomeruli of the prior edges of one Golgi cell.\<close>

definition connected_glomeruli :: "edge list \<Rightarrow> real \<Rightarrow> real list" where
  "connected_glomeruli goc_glom golgi_id = map snd (filter (\<lambda>row. fst row = golgi_id) goc_glom)"

text \<open>The granule cells of the prior edges whose glomerulus is among \<open>gloms\<close> (a membership test).\<close>

definition connected_granules_via_gloms :: "edge list \<Rightarrow> real list \<Rightarrow> real list" where
  "connected_granules_via_gloms glom_grc gloms =
     map snd (filter (\<lambda>row. fst row \<in> set gloms) glom_grc)"

definition connectome_goc_grc :: "cell list \<Rightarrow> edge list \<Rightarrow> edge list \<Rightarrow> edge list" where
  "connectome_goc_grc golgis glom_grc goc_glom =
     concat (map (\<lambda>golgi_id.
                map (\<lambda>granule. (golgi_id, granule))
                  (connected_granules_via_gloms glom_grc (connected_glomeruli goc_glom golgi_id)))
            (map cid golgis))"

text \<open>
  The relational join of two edge sets, as the specification words it: the two prior edge
  lists are read as the sets of their rows, and the join holds the edge \<open>(golgi, granule)\<close>
  once for every pair of an edge \<open>(golgi, glom)\<close> of the first set and an edge
  \<open>(glom, granule)\<close> of the second set, that is once for every glomerulus the two cells share.
\<close>

definition relational_join :: "edge list \<Rightarrow> edge list \<Rightarrow> edge multiset" where
  "relational_join goc_glom glom_grc =
     mset (concat (map (\<lambda>e1. map (\<lambda>e2. (fst e1, snd e2))
                                (filter (\<lambda>e2. fst e2 = snd e1) (remdups glom_grc)))
                    (remdups goc_glom)))"

text \<open>
  \<^verbatim>\<open>ConnectomeGolgiGranule.connect\<close>: the two prior edge lists are looked up by tag in
  \<^verbatim>\<open>scaffold.cell_connections_by_tag\<close>, a dictionary; a missing tag raises KeyError.
\<close>

definition goc_grc_connect :: "(string \<Rightarrow> edge list option) \<Rightarrow> cell list \<Rightarrow> pyerr + edge list" where
  "goc_grc_connect cell_connections_by_tag golgis =
     (case cell_connections_by_tag ''glomerulus_to_granule'' of
        None \<Rightarrow> Inl KeyError
      | Some glom_grc \<Rightarrow>
          (case cell_connections_by_tag ''golgi_to_glomerulus'' of
             None \<Rightarrow> Inl KeyError
           | Some goc_glom \<Rightarrow> Inr (connectome_goc_grc golgis glom_grc goc_glom)))"

section \<open>ConnectomePFPurkinje\<close>

text \<open>
  \<^verbatim>\<open>connectome_pf_pc\<close>: every granule cell whose x lies within half the Purkinje extension of
  the Purkinje cell; the granule array is read and never written.
\<close>

definition connectome_pf_pc :: "int \<Rightarrow> cell list \<Rightarrow> cell list \<Rightarrow> real \<Rightarrow> edge list" where
  "connectome_pf_pc first_granule granules purkinjes x_pc =
     concat (map (\<lambda>i.
                let bool_matrix = map (\<lambda>c. cx c \<ge> cx i - x_pc / 2 \<and> cx c \<le> cx i + x_pc / 2) granules;
                    good_pf = np_where bool_matrix
                in map (\<lambda>k. (real k + real_of_int first_granule, cid i)) good_pf)
            purkinjes)"

section \<open>ConnectomePFInterneuron\<close>

text \<open>
  The loop of \<^verbatim>\<open>connectome_pf_inter\<close> over the interneurons. The vector of the granule x
  coordinates and the vector \<^verbatim>\<open>h_pf\<close> of fiber heights are combined elementwise, so lengths that
  do not broadcast raise ValueError.
\<close>

fun pf_inter_loop ::
  "int \<Rightarrow> cell list \<Rightarrow> real \<Rightarrow> real list \<Rightarrow> cell list \<Rightarrow> edge list \<Rightarrow> pyerr + edge list" where
  "pf_inter_loop first_granule granules r_sb h_pf [] pf_interneuron = Inr pf_interneuron"
| "pf_inter_loop first_granule granules r_sb h_pf (i # interneurons) pf_interneuron =
     (case np_broadcast (\<lambda>a b. a + b - r_sb\<^sup>2 \<le> 0)
             (map (\<lambda>c. (cx c - cx i)\<^sup>2) granules) (map (\<lambda>hp. (hp - cy i)\<^sup>2) h_pf) of
        Inl e \<Rightarrow> Inl e
      | Inr interneuron_matrix \<Rightarrow>
          (let good_pf = np_where interneuron_matrix
           in pf_inter_loop first_granule granules r_sb h_pf interneurons
                (pf_interneuron @ map (\<lambda>k. (real k + real_of_int first_granule, cid i)) good_pf)))"

definition connectome_pf_inter ::
  "int \<Rightarrow> cell list \<Rightarrow> cell list \<Rightarrow> real \<Rightarrow> real list \<Rightarrow> pyerr + edge list" where
  "connectome_pf_inter first_granule interneurons granules r_sb h_pf =
     pf_inter_loop first_granule granules r_sb h_pf interneurons []"

section \<open>ConnectomeBCSCPurkinje\<close>

text \<open>
  The loop over the candidates of one Purkinje cell \<open>p\<close>; \<open>idx\<close> starts at 1. The z offset is
  divided by \<open>div_z\<close> and the x offset by \<open>div_x\<close>.
\<close>

fun sc_bc_walk ::
  "real \<Rightarrow> real \<Rightarrow> nat \<Rightarrow> cell \<Rightarrow> cell list \<Rightarrow> nat \<Rightarrow> edge list \<Rightarrow> rng \<Rightarrow> edge list \<times> rng" where
  "sc_bc_walk div_z div_x conv p [] idx out g = (out, g)"
| "sc_bc_walk div_z div_x conv p (j # candidates) idx out g =
     (if idx \<le> conv then
        (let (ra, g1) = np_random g in
         if np_gt ra (np_div \<bar>cz j - cz p\<bar> div_z) \<and> np_gt ra (np_div \<bar>cx j - cx p\<bar> div_x)
         then sc_bc_walk div_z div_x conv p candidates (idx + 1) (out @ [(cid j, cid p)]) g1
         else sc_bc_walk div_z div_x conv p candidates idx out g1)
      else sc_bc_walk div_z div_x conv p candidates idx out g)"

text \<open>
  The loop of \<^verbatim>\<open>connectome_sc_bc_pc\<close> over the Purkinje cells. For the stellate cells the z
  offset is compared with \<^verbatim>\<open>distz\<close> and the x offset with \<^verbatim>\<open>distx\<close>; for the basket cells the
  code compares the z offset with \<^verbatim>\<open>distx\<close> and the x offset with \<^verbatim>\<open>distz\<close>, in the gate and in
  the acceptance test. The basket coordinates are read from \<^verbatim>\<open>baskets\<close>, the array of the
  enclosing \<^verbatim>\<open>connect\<close>, which is the array passed as \<^verbatim>\<open>basketcells\<close>.
\<close>

fun sc_bc_pc_loop ::
  "cell list \<Rightarrow> cell list \<Rightarrow> real \<Rightarrow> real \<Rightarrow> nat \<Rightarrow> cell list \<Rightarrow> edge list \<Rightarrow> edge list \<Rightarrow> rng \<Rightarrow>
   edge list \<times> edge list" where
  "sc_bc_pc_loop basketcells stellates distx distz conv [] sc_pc bc_pc g = (sc_pc, bc_pc)"
| "sc_bc_pc_loop basketcells stellates distx distz conv (p # purkinjes) sc_pc bc_pc g =
     (let sc_matrix = map (\<lambda>s. \<bar>cz s - cz p\<bar> < distz \<and> \<bar>cx s - cx p\<bar> < distx) stellates;
          bc_matrix = map (\<lambda>b. \<bar>cz b - cz p\<bar> < distx \<and> \<bar>cx b - cx p\<bar> < distz) basketcells;
          good_bc = np_where bc_matrix;
          good_sc = np_where sc_matrix;
          (chosen_rand_bc, g1) = np_permutation good_bc g;
          good_bc_matrix = rows_at basketcells chosen_rand_bc;
          (chosen_rand_sc, g2) = np_permutation good_sc g1;
          good_sc_matrix = rows_at stellates chosen_rand_sc;
          (bc_pc1, g3) = sc_bc_walk distx distz conv p good_bc_matrix 1 bc_pc g2;
          (sc_pc1, g4) = sc_bc_walk distz distx conv p good_sc_matrix 1 sc_pc g3
      in sc_bc_pc_loop basketcells stellates distx distz conv purkinjes sc_pc1 bc_pc1 g4)"

text \<open>\<^verbatim>\<open>connectome_sc_bc_pc\<close>: the stellate edges and the basket edges; the two first ids are not read.\<close>

definition connectome_sc_bc_pc ::
  "int \<Rightarrow> int \<Rightarrow> cell list \<Rightarrow> cell list \<Rightarrow> cell list \<Rightarrow> real \<Rightarrow> real \<Rightarrow> nat \<Rightarrow> rng \<Rightarrow>
   edge list \<times> edge list" where
  "connectome_sc_bc_pc first_stellate first_basket basketcells stellates purkinjes distx distz conv g =
     sc_bc_pc_loop basketcells stellates distx distz conv purkinjes [] [] g"

section \<open>ConnectomePurkinjeDCN\<close>

text \<open>
  \<^verbatim>\<open>distance\<close> of \<^verbatim>\<open>connectome_pc_dcn\<close>: one entry per row \<open>(a, b, c, d)\<close> of \<^verbatim>\<open>dend_tree_coeff\<close>,
  the distance of the Purkinje cell \<open>i\<close> to the plane \<open>a x + b y + c z + d = 0\<close>.
\<close>

definition pc_dcn_distance :: "(real \<times> real \<times> real \<times> real) list \<Rightarrow> cell \<Rightarrow> npfloat list" where
  "pc_dcn_distance dend_tree_coeff i =
     map (\<lambda>(a, b, c, d). np_div \<bar>a * cx i + b * cy i + c * cz i + d\<bar> (sqrt (a\<^sup>2 + b\<^sup>2 + c\<^sup>2)))
       dend_tree_coeff"

text \<open>
  The loop over the Purkinje cells. The assignment \<^verbatim>\<open>dist_matrix[:,0] = distance\<close> needs as many
  distances as DCN cells, or a single one, and raises ValueError otherwise. With at least
  \<open>div_pc\<close> DCN cells, a draw above one half takes the first \<open>div_pc\<close> rows of the permuted
  matrix and any other draw the first \<open>div_pc - 1\<close>; with \<open>div_pc = 0\<close> the latter asks
  \<^verbatim>\<open>np.zeros\<close> for a negative number of rows, a ValueError.
\<close>

fun pc_dcn_loop ::
  "cell list \<Rightarrow> nat \<Rightarrow> (real \<times> real \<times> real \<times> real) list \<Rightarrow> cell list \<Rightarrow> edge list \<Rightarrow> rng \<Rightarrow>
   pyerr + edge list" where
  "pc_dcn_loop dcn_cells div_pc dend_tree_coeff [] pc_dcn g = Inr pc_dcn"
| "pc_dcn_loop dcn_cells div_pc dend_tree_coeff (i # purkinjes) pc_dcn g =
     (let distance = pc_dcn_distance dend_tree_coeff i
      in if length distance = length dcn_cells \<or> length distance = 1 then
           (let dist_matrix =
                  zip (if length distance = length dcn_cells then distance
                       else replicate (length dcn_cells) (distance ! 0))
                      (map cid dcn_cells);
                (dcn_dist, g1) = np_permutation dist_matrix g
            in if length dcn_cells < div_pc
               then pc_dcn_loop dcn_cells div_pc dend_tree_coeff purkinjes
                      (pc_dcn @ map (\<lambda>c. (cid i, cid c)) dcn_cells) g1
               else
                 (let (ra, g2) = np_random g1 in
                  if ra > 1 / 2
                  then pc_dcn_loop dcn_cells div_pc dend_tree_coeff purkinjes
                         (pc_dcn @ map (\<lambda>row. (cid i, real_of_int (np_astype_int (snd row))))
                                     (take div_pc dcn_dist)) g2
                  else if div_pc = 0 then Inl ValueError
                  else pc_dcn_loop dcn_cells div_pc dend_tree_coeff purkinjes
                         (pc_dcn @ map (\<lambda>row. (cid i, real_of_int (np_astype_int (snd row))))
                                     (take (div_pc - 1) dcn_dist)) g2))
         else Inl ValueError)"

text \<open>\<^verbatim>\<open>connectome_pc_dcn\<close>; the parameter \<^verbatim>\<open>first_dcn\<close> is not read by the body.\<close>

definition connectome_pc_dcn ::
  "int \<Rightarrow> cell list \<Rightarrow> cell list \<Rightarrow> nat \<Rightarrow> (real \<times> real \<times> real \<times> real) list \<Rightarrow> rng \<Rightarrow>
   pyerr + edge list" where
  "connectome_pc_dcn first_dcn purkinjes dcn_cells div_pc dend_tree_coeff g =
     pc_dcn_loop dcn_cells div_pc dend_tree_coeff purkinjes [] g"

section \<open>Strategies that mark consumed rows with a sentinel\<close>

text \<open>
  Three legacy blocks overwrite rows of a working array while they run. The arrays live in
  an explicit store, a list of arrays addressed by position: a population handed to a
  strategy is an address, \<^verbatim>\<open>np.copy\<close> allocates a new address, a slice such as
  \<^verbatim>\<open>a[:,2]\<close> is a view that is read through the store at the time of use, and an assignment
  to rows of an array updates the store at that array's address.
\<close>

type_synonym heap = "cell list list"

definition np_copy :: "nat \<Rightarrow> heap \<Rightarrow> nat \<times> heap" where
  "np_copy a h = (length h, h @ [h ! a])"

text \<open>The row that \<^verbatim>\<open>a[i,:] = oob\<close> writes: the sentinel in every column, the id column included.\<close>

definition sentinel_row :: "real \<Rightarrow> cell" where
  "sentinel_row oob = \<lparr>cid = oob, ctype = oob, cx = oob, cy = oob, cz = oob\<rparr>"

text \<open>An integer index into an axis of length \<open>n\<close>: negative indices count from the end.\<close>

definition py_index :: "nat \<Rightarrow> int \<Rightarrow> pyerr + nat" where
  "py_index n i =
     (if 0 \<le> i \<and> i < int n then Inr (nat i)
      else if - int n \<le> i \<and> i < 0 then Inr (nat (int n + i))
      else Inl IndexError)"

fun py_indices :: "nat \<Rightarrow> int list \<Rightarrow> pyerr + nat list" where
  "py_indices n [] = Inr []"
| "py_indices n (i # idx) =
     (case py_index n i of
        Inl e \<Rightarrow> Inl e
      | Inr k \<Rightarrow> (case py_indices n idx of Inl e \<Rightarrow> Inl e | Inr ks \<Rightarrow> Inr (k # ks)))"

text \<open>\<^verbatim>\<open>a[idx,:] = v\<close> on the array at address \<open>a\<close>: every index is checked, then the rows are written.\<close>

definition set_rows :: "nat \<Rightarrow> int list \<Rightarrow> cell \<Rightarrow> heap \<Rightarrow> pyerr + heap" where
  "set_rows a idx v h =
     (case py_indices (length (h ! a)) idx of
        Inl e \<Rightarrow> Inl e
      | Inr ks \<Rightarrow> Inr (h[a := fold (\<lambda>k rows. rows[k := v]) ks (h ! a)]))"

text \<open>
  \<^verbatim>\<open>np.delete(a, idx, 0)\<close>: a copy of \<open>a\<close> without the indexed rows; an index out of bounds
  raises IndexError (numpy from release 1.19 on; older releases only warned).
\<close>

definition np_delete :: "'a list \<Rightarrow> int list \<Rightarrow> pyerr + 'a list" where
  "np_delete a idx =
     (case py_indices (length a) idx of
        Inl e \<Rightarrow> Inl e
      | Inr ks \<Rightarrow> Inr (rows_at a (filter (\<lambda>i. i \<notin> set ks) [0..<length a])))"

text \<open>
  A \<^verbatim>\<open>for\<close> loop whose body reads and writes the store and may raise: the loop state \<open>s\<close>
  holds the local variables, and an exception ends the loop with the store as it is then.
\<close>

fun for_rows ::
  "('c \<Rightarrow> 's \<Rightarrow> heap \<Rightarrow> (pyerr + 's) \<times> heap) \<Rightarrow> 'c list \<Rightarrow> 's \<Rightarrow> heap \<Rightarrow> (pyerr + 's) \<times> heap" where
  "for_rows body [] s h = (Inr s, h)"
| "for_rows body (c # cs) s h =
     (case body c s h of
        (Inl e, h1) \<Rightarrow> (Inl e, h1)
      | (Inr s1, h1) \<Rightarrow> for_rows body cs s1 h1)"

subsection \<open>ConnectomeGolgiGlomerulus\<close>

text \<open>The three range tests of \<^verbatim>\<open>connectome_goc_glom\<close> for one Golgi cell and one glomerulus.\<close>

definition goc_glom_gate :: "real \<Rightarrow> real \<Rightarrow> real \<Rightarrow> real \<Rightarrow> cell \<Rightarrow> cell \<Rightarrow> bool" where
  "goc_glom_gate GoCaxon_x GoCaxon_y GoCaxon_z r_glom golgi glom =
     (((cx glom + r_glom \<ge> cx golgi - GoCaxon_x / 2) \<and> (cx glom - r_glom \<le> cx golgi + GoCaxon_x / 2)) \<and>
      ((cy glom + r_glom \<ge> cy golgi - GoCaxon_y / 2) \<and> (cy glom - r_glom \<le> cy golgi + GoCaxon_y / 2)) \<and>
      ((cz glom + r_glom \<ge> cz golgi - GoCaxon_z / 2) \<and> (cz glom - r_glom \<le> cz golgi + GoCaxon_z / 2)))"

text \<open>
  An entry of \<^verbatim>\<open>normalized_distance_vector\<close>: the distance in the x-y plane of a row of the
  working copy to the Golgi cell, divided by the layer thickness.
\<close>

definition goc_glom_distance :: "real \<Rightarrow> cell \<Rightarrow> cell \<Rightarrow> npfloat" where
  "goc_glom_distance layer_thickness golgi c =
     np_div (sqrt ((cx c - cx golgi)\<^sup>2 + (cy c - cy golgi)\<^sup>2)) layer_thickness"

text \<open>
  The body of the loop over the sorted candidates. The loop state is \<open>(idx, connections, rng)\<close>;
  a candidate is a row of the working copy with its probability threshold. The id read from
  the row is already a simulation id; the code adds \<^verbatim>\<open>first_glomerulus\<close> to it for the edge and
  subtracts \<^verbatim>\<open>first_glomerulus\<close> from it for the row to overwrite.
\<close>

definition goc_glom_candidate ::
  "int \<Rightarrow> nat \<Rightarrow> nat \<Rightarrow> real \<Rightarrow> real \<Rightarrow> cell \<times> npfloat \<Rightarrow> nat \<times> edge list \<times> rng \<Rightarrow> heap \<Rightarrow>
   (pyerr + nat \<times> edge list \<times> rng) \<times> heap" where
  "goc_glom_candidate first_glomerulus new_glomeruli n_conn_goc golgi_id oob cand s h =
     (case (cand, s) of ((glomerulus, treshold), (idx, connections, g)) \<Rightarrow>
        if idx \<le> n_conn_goc then
          (let (ra, g1) = np_random g in
           if np_gt ra treshold then
             (let glomerulus_id = cid glomerulus;
                  connections1 = connections @ [(golgi_id, glomerulus_id + real_of_int first_glomerulus)]
              in case set_rows new_glomeruli [py_int (glomerulus_id - real_of_int first_glomerulus)]
                        (sentinel_row oob) h of
                   Inl e \<Rightarrow> (Inl e, h)
                 | Inr h1 \<Rightarrow> (Inr (idx + 1, connections1, g1), h1))
           else (Inr (idx, connections, g1), h))
        else (Inr (idx, connections, g), h))"

text \<open>
  The body of the loop over the Golgi cells. The range tests read \<^verbatim>\<open>glom_x\<close>, \<^verbatim>\<open>glom_y\<close>,
  \<^verbatim>\<open>glom_z\<close>, which are views of the array passed in; the candidate rows and their distances
  are read from the working copy.
\<close>

definition goc_glom_golgi ::
  "int \<Rightarrow> nat \<Rightarrow> nat \<Rightarrow> real \<Rightarrow> real \<Rightarrow> real \<Rightarrow> real \<Rightarrow> nat \<Rightarrow> real \<Rightarrow> real \<Rightarrow>
   cell \<Rightarrow> edge list \<times> rng \<Rightarrow> heap \<Rightarrow> (pyerr + edge list \<times> rng) \<times> heap" where
  "goc_glom_golgi first_glomerulus glomeruli new_glomeruli GoCaxon_x GoCaxon_y GoCaxon_z r_glom
      n_conn_goc layer_thickness oob golgi s h =
     (case s of (connections, g) \<Rightarrow>
        (let bool_vector = map (goc_glom_gate GoCaxon_x GoCaxon_y GoCaxon_z r_glom golgi) (h ! glomeruli);
             good = np_where bool_vector;
             (chosen_rand, g1) = np_permutation good g;
             good_gloms_matrix = rows_at (h ! new_glomeruli) chosen_rand;
             normalized_distance_vector =
               map (goc_glom_distance layer_thickness golgi) good_gloms_matrix;
             (sorting_map, g2) = np_argsort (map np_sort_key normalized_distance_vector) g1;
             good_gloms_matrix = rows_at good_gloms_matrix sorting_map;
             probability_treshold = rows_at normalized_distance_vector sorting_map
         in case for_rows (goc_glom_candidate first_glomerulus new_glomeruli n_conn_goc (cid golgi) oob)
                   (zip good_gloms_matrix probability_treshold) (1, connections, g2) h of
              (Inl e, h1) \<Rightarrow> (Inl e, h1)
            | (Inr (idx, connections1, g3), h1) \<Rightarrow> (Inr (connections1, g3), h1)))"

text \<open>
  \<^verbatim>\<open>connectome_goc_glom\<close>: \<open>glomeruli\<close> and \<open>golgicells\<close> are the addresses of the two
  population arrays. The value is the edge list (or the exception) and the final store.
\<close>

definition connectome_goc_glom ::
  "int \<Rightarrow> nat \<Rightarrow> nat \<Rightarrow> real \<Rightarrow> real \<Rightarrow> real \<Rightarrow> real \<Rightarrow> nat \<Rightarrow> real \<Rightarrow> real \<Rightarrow>
   rng \<Rightarrow> heap \<Rightarrow> (pyerr + edge list) \<times> heap" where
  "connectome_goc_glom first_glomerulus glomeruli golgicells GoCaxon_x GoCaxon_y GoCaxon_z r_glom
      n_conn_goc layer_thickness oob g h =
     (let (new_glomeruli, h1) = np_copy glomeruli h;
          (new_golgicells, g1) = np_permutation (h1 ! golgicells) g
      in case for_rows
                (goc_glom_golgi first_glomerulus glomeruli new_glomeruli GoCaxon_x GoCaxon_y GoCaxon_z
                   r_glom n_conn_goc layer_thickness oob)
                new_golgicells ([], g1) h1 of
           (Inl e, h2) \<Rightarrow> (Inl e, h2)
         | (Inr (connections, g2), h2) \<Rightarrow> (Inr connections, h2))"

subsection \<open>ConnectomeGranuleGolgi\<close>

text \<open>
  The loop over the sorted ascending-axon candidates: a candidate is a row of the working
  copy with its roll and its probability; \<^verbatim>\<open>idx\<close> is the number of ids collected so far.
\<close>

fun aa_walk :: "nat \<Rightarrow> (cell \<times> real \<times> npfloat) list \<Rightarrow> real list \<Rightarrow> real list" where
  "aa_walk n_connAA [] connectedAA = connectedAA"
| "aa_walk n_connAA ((j, roll, p) # rest) connectedAA =
     (if length connectedAA < n_connAA then
        (if np_gt roll p then aa_walk n_connAA rest (connectedAA @ [cid j])
         else aa_walk n_connAA rest connectedAA)
      else aa_walk n_connAA rest connectedAA)"

text \<open>An entry of \<^verbatim>\<open>distance_vector\<close>: the squared distance in the x-z plane to the Golgi cell.\<close>

definition grc_goc_distance :: "cell \<Rightarrow> cell \<Rightarrow> real" where
  "grc_goc_distance golgi c = (cx c - cx golgi)\<^sup>2 + (cz c - cz golgi)\<^sup>2"

text \<open>\<^verbatim>\<open>AA_candidates\<close>: the rows of the working copy within \<open>r_goc_vol\<close> of the Golgi cell.\<close>

definition AA_candidates :: "real \<Rightarrow> cell \<Rightarrow> cell list \<Rightarrow> nat list" where
  "AA_candidates r_goc_vol golgi new_granules =
     np_where (map (\<lambda>c. grc_goc_distance golgi c \<le> r_goc_vol\<^sup>2) new_granules)"

definition density_warning :: string where
  "density_warning =
     ''[WARNING] The granule cell density is too low compared to the Golgi cell density to make physiological connections!''"

text \<open>
  The body of the loop over the Golgi cells. \<^verbatim>\<open>granules_x\<close> and \<^verbatim>\<open>granules_z\<close> are views of the
  working copy; \<^verbatim>\<open>np.delete\<close> reads the array passed in. The loop state is
  \<open>(aa_goc, pf_goc, densityWarningSent, printed, rng)\<close>, where \<open>printed\<close> holds the lines
  written to the standard output; \<open>verbosity\<close> is \<^verbatim>\<open>scaffold.configuration.verbosity\<close>.
\<close>

type_synonym grc_goc_state = "edge list \<times> edge list \<times> bool \<times> string list \<times> rng"

definition grc_goc_golgi ::
  "int \<Rightarrow> nat \<Rightarrow> nat \<Rightarrow> real \<Rightarrow> real \<Rightarrow> nat \<Rightarrow> nat \<Rightarrow> int \<Rightarrow>
   cell \<Rightarrow> grc_goc_state \<Rightarrow> heap \<Rightarrow> (pyerr + grc_goc_state) \<times> heap" where
  "grc_goc_golgi first_granule granules new_granules r_goc_vol OoB_value n_connAA tot_conn verbosity
      golgi s h =
     (case s of (aa_goc, pf_goc, densityWarningSent, printed, g) \<Rightarrow>
        (let distance_vector = map (grc_goc_distance golgi) (h ! new_granules);
             candidates = AA_candidates r_goc_vol golgi (h ! new_granules);
             (chosen_rand, g1) = np_permutation candidates g;
             selected_granules = rows_at (h ! new_granules) chosen_rand;
             selected_distances = map sqrt (rows_at distance_vector chosen_rand);
             prob = map (\<lambda>d. np_div d r_goc_vol) selected_distances;
             (distance_sort, g2) = np_argsort (map np_sort_key prob) g1;
             selected_granules = rows_at selected_granules distance_sort;
             prob = rows_at prob distance_sort;
             (rolls, g3) = np_uniform (length selected_granules) g2;
             connectedAA = aa_walk n_connAA (zip selected_granules (zip rolls prob)) []
         in case np_delete (h ! granules)
                   (map (\<lambda>a. np_astype_int (a - real_of_int first_granule)) connectedAA) of
              Inl e \<Rightarrow> (Inl e, h)
            | Inr good_grc \<Rightarrow>
                (let intersections =
                       map (\<lambda>c. cx c \<ge> cx golgi - r_goc_vol \<and> cx c \<le> cx golgi + r_goc_vol) good_grc;
                     good_pf = np_where intersections;
                     AA_connected_count = length connectedAA;
                     parallelFibersToConnect = int tot_conn - int AA_connected_count;
                     too_few = (int (length good_pf) < parallelFibersToConnect);
                     densityWarningSent1 = (if too_few then True else densityWarningSent);
                     printed1 =
                       (if too_few \<and> \<not> densityWarningSent \<and> verbosity > 0
                        then printed @ [density_warning] else printed)
                 in case (if too_few
                          then np_choice good_pf
                                 (min (int tot_conn - int AA_connected_count) (int (length good_pf))) g3
                          else np_choice good_pf (int tot_conn - int (length connectedAA)) g3) of
                      (Inl e, g4) \<Rightarrow> (Inl e, h)
                    | (Inr connected_pf, g4) \<Rightarrow>
                        (let pf_idx = rows_at good_grc connected_pf;
                             matrix_pf = map (\<lambda>c. (cid c, cid golgi)) pf_idx;
                             matrix_aa = map (\<lambda>a. (a, cid golgi)) connectedAA
                         in case set_rows new_granules
                                   (map (\<lambda>a. np_astype_int a - first_granule) connectedAA)
                                   (sentinel_row OoB_value) h of
                              Inl e \<Rightarrow> (Inl e, h)
                            | Inr h1 \<Rightarrow>
                                (Inr (aa_goc @ matrix_aa, pf_goc @ matrix_pf, densityWarningSent1,
                                      printed1, g4), h1)))))"

text \<open>\<^verbatim>\<open>m[m[:,1].argsort()]\<close>: the edges ordered by their second column.\<close>

definition sort_by_post :: "edge list \<Rightarrow> rng \<Rightarrow> edge list \<times> rng" where
  "sort_by_post m g = (let (order, g1) = np_argsort (map snd m) g in (rows_at m order, g1))"

text \<open>
  \<^verbatim>\<open>connectome_grc_goc\<close>: the exception raised when there are not more granule cells than
  Golgi cells is a plain \<^verbatim>\<open>Exception\<close> whose message reads "The number of granule cells was
  less than the number of golgi cells. Simulation cannot continue."; the model names it
  \<open>SupplyException\<close>. The parameter \<^verbatim>\<open>n_conn_pf\<close> is not read by the body. The value is the two
  sorted edge lists with the lines printed.
\<close>

definition connectome_grc_goc ::
  "int \<Rightarrow> nat \<Rightarrow> nat \<Rightarrow> real \<Rightarrow> real \<Rightarrow> nat \<Rightarrow> nat \<Rightarrow> nat \<Rightarrow> int \<Rightarrow>
   rng \<Rightarrow> heap \<Rightarrow> (pyerr + edge list \<times> edge list \<times> string list) \<times> heap" where
  "connectome_grc_goc first_granule granules golgicells r_goc_vol OoB_value n_connAA n_conn_pf tot_conn
      verbosity g h =
     (let (new_granules, h1) = np_copy granules h;
          (new_golgicells, g1) = np_permutation (h1 ! golgicells) g
      in if length (h1 ! new_granules) \<le> length new_golgicells then (Inl SupplyException, h1)
         else
           (case for_rows
                   (grc_goc_golgi first_granule granules new_granules r_goc_vol OoB_value n_connAA
                      tot_conn verbosity)
                   new_golgicells ([], [], False, [], g1) h1 of
              (Inl e, h2) \<Rightarrow> (Inl e, h2)
            | (Inr (aa_goc, pf_goc, densityWarningSent, printed, g2), h2) \<Rightarrow>
                (let (aa_sorted, g3) = sort_by_post aa_goc g2;
                     (pf_sorted, g4) = sort_by_post pf_goc g3
                 in (Inr (aa_sorted, pf_sorted, printed), h2))))"

subsection \<open>ConnectomeAscAxonPurkinje\<close>

text \<open>The body of the loop over the Purkinje cells; the loop state is the edge list \<open>aa_pc\<close>.\<close>

definition aa_pc_purkinje ::
  "int \<Rightarrow> nat \<Rightarrow> real \<Rightarrow> real \<Rightarrow> real \<Rightarrow> cell \<Rightarrow> edge list \<Rightarrow> heap \<Rightarrow> (pyerr + edge list) \<times> heap" where
  "aa_pc_purkinje first_granule new_granules x_pc z_pc OoB_value i aa_pc h =
     (let bool_vector =
            map (\<lambda>c. (cz c \<ge> cz i - z_pc / 2 \<and> cz c \<le> cz i + z_pc / 2) \<and>
                     (cx c \<ge> cx i - x_pc / 2 \<and> cx c \<le> cx i + x_pc / 2)) (h ! new_granules);
          good_aa = np_where bool_vector;
          matrix = map (\<lambda>k. (real k + real_of_int first_granule, cid i)) good_aa
      in case set_rows new_granules (map int good_aa) (sentinel_row OoB_value) h of
           Inl e \<Rightarrow> (Inl e, h)
         | Inr h1 \<Rightarrow> (Inr (aa_pc @ matrix), h1))"

definition connectome_aa_pc ::
  "int \<Rightarrow> nat \<Rightarrow> nat \<Rightarrow> real \<Rightarrow> real \<Rightarrow> real \<Rightarrow> heap \<Rightarrow> (pyerr + edge list) \<times> heap" where
  "connectome_aa_pc first_granule granules purkinjes x_pc z_pc OoB_value h =
     (let (new_granules, h1) = np_copy granules h
      in for_rows (aa_pc_purkinje first_granule new_granules x_pc z_pc OoB_value)
           (h1 ! purkinjes) [] h1)"

section \<open>TouchDetector\<close>

text \<open>
  A name that a method body reads and that is not one of its locals is looked up in the
  namespace of the module (and then among the builtins) when the statement runs; a name bound in
  neither raises NameError. The namespace is a partial map from names to objects.
\<close>

definition load_global :: "(string \<Rightarrow> 'obj option) \<Rightarrow> string \<Rightarrow> pyerr + 'obj" where
  "load_global globals name =
     (case globals name of None \<Rightarrow> Inl (NameError name) | Some v \<Rightarrow> Inr v)"

text \<open>
  The names connectivity.py binds at module level (its imports and its classes), followed by
  the builtins its bodies call.
\<close>

definition connectivity_names :: "string list" where
  "connectivity_names =
     [''abc'', ''ConfigurableClass'', ''assert_attr_in'', ''get_parallel_fiber_heights'',
      ''get_dcn_rotations'', ''np'', ''random_element'', ''ConnectionStrategy'',
      ''ReciprocalGolgiGlomerulus'', ''TouchingConvergenceDivergence'', ''TouchConnect'',
      ''ConnectomeGlomerulusGranule'', ''ConnectomeGlomerulusGolgi'', ''ConnectomeGolgiGlomerulus'',
      ''ConnectomeGranuleGolgi'', ''ConnectomeGolgiGranule'', ''ConnectomeAscAxonPurkinje'',
      ''ConnectomePFPurkinje'', ''ConnectomePFInterneuron'', ''ConnectomeBCSCPurkinje'',
      ''ConnectomeGapJunctions'', ''ConnectomeGapJunctionsGolgi'', ''ConnectomePurkinjeDCN'',
      ''ConnectomeGlomDCN'', ''ConnectomeIOPurkinje'', ''ConnectomeIOMolecular'', ''TouchDetector'',
      ''Satellite'', ''AllToAll'',
      ''len'', ''range'', ''list'', ''int'', ''float'', ''type'', ''min'', ''map'', ''filter'',
      ''enumerate'', ''print'', ''super'', ''Exception'']"

definition connectivity_globals :: "string \<Rightarrow> unit option" where
  "connectivity_globals = map_of (map (\<lambda>n. (n, ())) connectivity_names)"

text \<open>
  What \<^verbatim>\<open>intersect_cells\<close> reads through \<^verbatim>\<open>self\<close>: the points of the two cell trees, already
  projected on the cell intersection plane, and the two placed counts.
\<close>

record touch_detector =
  from_points :: "real list list"
  to_points :: "real list list"
  from_count :: nat
  to_count :: nat

text \<open>
  Modelled from the spec: the tree handler and its \<^verbatim>\<open>query_radius\<close> are not among the sources.
  For every query point, the indices of the tree's points within Euclidean distance \<open>r\<close>.
\<close>

definition point_distance :: "real list \<Rightarrow> real list \<Rightarrow> real" where
  "point_distance p q = sqrt (sum_list (map2 (\<lambda>a b. (a - b)\<^sup>2) p q))"

definition query_radius :: "real list list \<Rightarrow> real list list \<Rightarrow> real \<Rightarrow> nat list list" where
  "query_radius tree_points queries r =
     map (\<lambda>q. np_where (map (\<lambda>p. point_distance p q \<le> r) tree_points)) queries"

text \<open>
  The branch of \<^verbatim>\<open>intersect_cells\<close> taken when \<^verbatim>\<open>from_count < to_count\<close> is false. Its loop
  header is \<^verbatim>\<open>for i in len(reversed_matches)\<close>: iterating over an integer raises TypeError
  before the body runs.
\<close>

definition intersect_cells_mirrored :: "touch_detector \<Rightarrow> real \<Rightarrow> pyerr + nat list list" where
  "intersect_cells_mirrored self radius =
     (let reversed_matches = query_radius (from_points self) (to_points self) radius;
          matches = replicate (length reversed_matches) ([] :: nat list)
      in Inl TypeError)"

text \<open>
  \<^verbatim>\<open>TouchDetector.intersect_cells\<close>: its locals are \<^verbatim>\<open>self\<close>, \<^verbatim>\<open>cell_plane\<close>, \<^verbatim>\<open>from_type\<close>,
  \<^verbatim>\<open>to_type\<close>, the two trees and the two counts; the radius is computed from the names
  \<^verbatim>\<open>from_cell_type\<close> and \<^verbatim>\<open>to_cell_type\<close>, which are not among them.
\<close>

definition intersect_cells ::
  "(string \<Rightarrow> 'obj option) \<Rightarrow> ('obj \<Rightarrow> real) \<Rightarrow> touch_detector \<Rightarrow> pyerr + nat list list" where
  "intersect_cells globals get_search_radius self =
     (case load_global globals ''from_cell_type'' of
        Inl e \<Rightarrow> Inl e
      | Inr from_cell_type \<Rightarrow>
          (case load_global globals ''to_cell_type'' of
             Inl e \<Rightarrow> Inl e
           | Inr to_cell_type \<Rightarrow>
               (let radius = get_search_radius from_cell_type + get_search_radius to_cell_type
                in if from_count self < to_count self
                   then Inr (query_radius (to_points self) (from_points self) radius)
                   else intersect_cells_mirrored self radius)))"

text \<open>
  The operations \<^verbatim>\<open>intersect_compartments\<close> calls on objects that are not among the sources:
  \<^verbatim>\<open>len\<close> of the cell matches, \<^verbatim>\<open>scaffold.translate_cell_ids\<close>, indexing the id map with the cell
  matches, and \<^verbatim>\<open>get_compartment_intersections\<close>.
\<close>

record ('obj, 'tid, 'comp) touch_ops =
  len_of :: "'obj \<Rightarrow> nat"
  translate_cell_ids :: "'obj \<Rightarrow> nat list \<Rightarrow> 'obj \<Rightarrow> real list"
  index_with :: "real list \<Rightarrow> 'obj \<Rightarrow> 'tid"
  get_compartment_intersections :: "'obj \<Rightarrow> real \<Rightarrow> 'tid \<Rightarrow> 'comp list"

text \<open>\<^verbatim>\<open>random.choice\<close> on a sequence that is not empty.\<close>

definition random_element :: "'a list \<Rightarrow> rng \<Rightarrow> 'a \<times> rng" where
  "random_element xs g =
     (case perm_draws g of
        [] \<Rightarrow> (xs ! 0, g)
      | d # ds \<Rightarrow> (xs ! (d mod length xs), g\<lparr>perm_draws := ds\<rparr>))"

text \<open>The loop of \<^verbatim>\<open>intersect_compartments\<close> over \<^verbatim>\<open>range(len(candidate_map))\<close>.\<close>

fun compartments_loop ::
  "('obj, 'tid, 'comp) touch_ops \<Rightarrow> 'obj \<Rightarrow> 'obj \<Rightarrow> real list \<Rightarrow> real list \<Rightarrow> nat list \<Rightarrow>
   (real \<times> 'tid) list \<Rightarrow> 'comp list \<Rightarrow> rng \<Rightarrow> pyerr + (real \<times> 'tid) list \<times> 'comp list" where
  "compartments_loop ops self cell_matches id_map_from id_map_to [] connected_cells
      connected_compartments g = Inr (connected_cells, connected_compartments)"
| "compartments_loop ops self cell_matches id_map_from id_map_to (i # todo) connected_cells
      connected_compartments g =
     (if i < length id_map_from then
        (let from_id = id_map_from ! i;
             to_id = index_with ops id_map_to cell_matches;
             intersections = get_compartment_intersections ops self from_id to_id
         in if length intersections > 0 then
              (let (chosen, g1) = random_element intersections g
               in compartments_loop ops self cell_matches id_map_from id_map_to todo
                    (connected_cells @ [(from_id, to_id)]) (connected_compartments @ [chosen]) g1)
            else compartments_loop ops self cell_matches id_map_from id_map_to todo connected_cells
                   connected_compartments g)
      else Inl IndexError)"

text \<open>
  \<^verbatim>\<open>TouchDetector.intersect_compartments\<close>: the parameters of the function are
  \<^verbatim>\<open>candidate_map\<close> and \<^verbatim>\<open>reversed_map\<close> and there is no \<^verbatim>\<open>self\<close> among them; the body reads
  \<^verbatim>\<open>self\<close>, \<^verbatim>\<open>cell_matches\<close>, \<^verbatim>\<open>from_type\<close> and \<^verbatim>\<open>to_type\<close>, in this order, as globals.
\<close>

definition intersect_compartments ::
  "(string \<Rightarrow> 'obj option) \<Rightarrow> ('obj, 'tid, 'comp) touch_ops \<Rightarrow> nat list list \<Rightarrow> bool \<Rightarrow> rng \<Rightarrow>
   pyerr + (real \<times> 'tid) list \<times> 'comp list" where
  "intersect_compartments globals ops candidate_map reversed_map g =
     (case load_global globals ''self'' of
        Inl e \<Rightarrow> Inl e
      | Inr self \<Rightarrow>
     (case load_global globals ''cell_matches'' of
        Inl e \<Rightarrow> Inl e
      | Inr cell_matches \<Rightarrow>
     (case load_global globals ''from_type'' of
        Inl e \<Rightarrow> Inl e
      | Inr from_type \<Rightarrow>
     (case load_global globals ''to_type'' of
        Inl e \<Rightarrow> Inl e
      | Inr to_type \<Rightarrow>
          (let id_map_from = translate_cell_ids ops self [0..<len_of ops cell_matches] from_type;
               id_map_to = translate_cell_ids ops self [0..<len_of ops cell_matches] to_type
           in compartments_loop ops self cell_matches id_map_from id_map_to
                [0..<length candidate_map] [] [] g)))))"

text \<open>
  \<^verbatim>\<open>TouchDetector.connect\<close> calls \<^verbatim>\<open>self.intersect_cells()\<close> and then
  \<^verbatim>\<open>self.intersect_compartments(candidates)\<close>. The second call is a call of a bound method on
  a function declared without \<^verbatim>\<open>self\<close>: the detector is bound to \<^verbatim>\<open>candidate_map\<close> and the
  candidates to \<^verbatim>\<open>reversed_map\<close>, so after the four global names are read the loop header
  \<^verbatim>\<open>range(len(candidate_map))\<close> asks the detector for a length it does not have, a TypeError.
  The method reads the cell trees and no population array.
\<close>

definition TouchDetector_connect ::
  "(string \<Rightarrow> 'obj option) \<Rightarrow> ('obj \<Rightarrow> real) \<Rightarrow> touch_detector \<Rightarrow> heap \<Rightarrow> (pyerr + unit) \<times> heap" where
  "TouchDetector_connect globals get_search_radius self h =
     (case intersect_cells globals get_search_radius self of
        Inl e \<Rightarrow> (Inl e, h)
      | Inr candidates \<Rightarrow>
     (case load_global globals ''self'' of
        Inl e \<Rightarrow> (Inl e, h)
      | Inr self_global \<Rightarrow>
     (case load_global globals ''cell_matches'' of
        Inl e \<Rightarrow> (Inl e, h)
      | Inr cell_matches \<Rightarrow>
     (case load_global globals ''from_type'' of
        Inl e \<Rightarrow> (Inl e, h)
      | Inr from_type \<Rightarrow>
     (case load_global globals ''to_type'' of
        Inl e \<Rightarrow> (Inl e, h)
      | Inr to_type \<Rightarrow> (Inl TypeError, h))))))"

section \<open>Satellite\<close>

text \<open>
  The loop of \<^verbatim>\<open>Satellite.connect\<close> over \<^verbatim>\<open>range(len(placement.after))\<close>: each turn looks up the
  edge list under the tag \<^verbatim>\<open>after_connection[num_after]\<close> and keeps it in \<^verbatim>\<open>after_connections\<close>,
  so the last one stays.
\<close>

fun satellite_after ::
  "(string \<Rightarrow> edge list option) \<Rightarrow> string list \<Rightarrow> nat list \<Rightarrow> edge list option \<Rightarrow>
   pyerr + edge list option" where
  "satellite_after cell_connections_by_tag after_connection [] after_connections =
     Inr after_connections"
| "satellite_after cell_connections_by_tag after_connection (num_after # rest) after_connections =
     (if num_after < length after_connection then
        (case cell_connections_by_tag (after_connection ! num_after) of
           None \<Rightarrow> Inl KeyError
         | Some edges \<Rightarrow> satellite_after cell_connections_by_tag after_connection rest (Some edges))
      else Inl IndexError)"

text \<open>\<^verbatim>\<open>np.amin(to_cells)\<close> ranges over every entry of the array, all five columns.\<close>

definition cell_entries :: "cell \<Rightarrow> real list" where
  "cell_entries c = [cid c, ctype c, cx c, cy c, cz c]"

text \<open>
  \<^verbatim>\<open>Satellite.connect\<close>: \<open>n_after\<close> is the length of \<^verbatim>\<open>placement.after\<close> of the to-type. With
  \<open>n_after = 0\<close> the name \<^verbatim>\<open>after_connections\<close> is never bound; \<^verbatim>\<open>np.amin\<close> of an empty array
  raises ValueError. Modelled from the spec: \<^verbatim>\<open>scaffold.get_cells_by_type\<close> is not among the
  sources; it hands out the population array of a type (\<open>get_population\<close>).
\<close>

definition Satellite_connect ::
  "(string \<Rightarrow> edge list option) \<Rightarrow> nat \<Rightarrow> string list \<Rightarrow> nat \<Rightarrow> heap \<Rightarrow> (pyerr + edge list) \<times> heap" where
  "Satellite_connect cell_connections_by_tag n_after after_connection to_type h =
     (case satellite_after cell_connections_by_tag after_connection [0..<n_after] None of
        Inl e \<Rightarrow> (Inl e, h)
      | Inr None \<Rightarrow> (Inl (UnboundLocalError ''after_connections''), h)
      | Inr (Some after_connections) \<Rightarrow>
          (if after_connections = [] then (Inl ValueError, h)
           else
             (let first_after = Min (set (map snd after_connections));
                  to_cells = h ! to_type
              in if to_cells = [] then (Inl ValueError, h)
                 else
                   (let first_to = Min (set (concat (map cell_entries to_cells)))
                    in (Inr (map (\<lambda>row. (fst row, snd row - first_after + first_to))
                               after_connections), h)))))"

section \<open>The connect methods\<close>

text \<open>
  Every \<^verbatim>\<open>connect\<close> fetches its population arrays from \<^verbatim>\<open>scaffold.cells_by_type\<close>, here the
  store, by address; reads its parameters from the configuration, here arguments; runs its
  legacy block; and hands the result to the scaffold. The value of a \<^verbatim>\<open>connect\<close> is what it hands
  over (or the exception) and the store when it ends.

  Modelled from the spec: \<^verbatim>\<open>scaffold.connect_cells\<close>, \<^verbatim>\<open>scaffold.append_dset\<close>,
  \<^verbatim>\<open>get_parallel_fiber_heights\<close> and \<^verbatim>\<open>get_dcn_rotations\<close> are not among the sources. The
  first two record an edge list under a tag and a derived dataset under a name
  (\<open>record_edges\<close>, \<open>record_derived_dataset\<close>); the last two compute a derived dataset from a
  population array and are arguments of the \<^verbatim>\<open>connect\<close> that calls them. To all four the
  populations are read-only.
\<close>

text \<open>
  The \<^verbatim>\<open>connect\<close> of \<^verbatim>\<open>ConnectionStrategy\<close>, \<^verbatim>\<open>ReciprocalGolgiGlomerulus\<close>,
  \<^verbatim>\<open>TouchingConvergenceDivergence\<close>, \<^verbatim>\<open>TouchConnect\<close>, \<^verbatim>\<open>ConnectomeIOPurkinje\<close>,
  \<^verbatim>\<open>ConnectomeIOMolecular\<close> and \<^verbatim>\<open>AllToAll\<close>: the body is \<^verbatim>\<open>pass\<close>.
\<close>

definition pass_connect :: "heap \<Rightarrow> (pyerr + unit) \<times> heap" where
  "pass_connect h = (Inr (), h)"

definition ConnectomeGlomerulusGranule_connect ::
  "nat \<Rightarrow> nat \<Rightarrow> real \<Rightarrow> nat \<Rightarrow> rng \<Rightarrow> heap \<Rightarrow> (pyerr + edge list) \<times> heap" where
  "ConnectomeGlomerulusGranule_connect glomeruli granules dend_len n_conn_glom g h =
     (glom_grc_connect (h ! glomeruli) (h ! granules) dend_len n_conn_glom g, h)"

definition ConnectomeGlomerulusGolgi_connect ::
  "nat \<Rightarrow> nat \<Rightarrow> real \<Rightarrow> heap \<Rightarrow> (pyerr + edge list) \<times> heap" where
  "ConnectomeGlomerulusGolgi_connect glomeruli golgis r_goc_vol h =
     (case h ! glomeruli of
        [] \<Rightarrow> (Inl IndexError, h)
      | c # _ \<Rightarrow>
          (Inr (connectome_glom_goc (py_int (cid c)) (h ! glomeruli) (h ! golgis) r_goc_vol), h))"

text \<open>The sentinel is \<^verbatim>\<open>scaffold.configuration.X * 1000.\<close>; \<open>X\<close> is the argument \<open>config_X\<close>.\<close>

definition ConnectomeGolgiGlomerulus_connect ::
  "nat \<Rightarrow> nat \<Rightarrow> real \<Rightarrow> real \<Rightarrow> real \<Rightarrow> real \<Rightarrow> nat \<Rightarrow> real \<Rightarrow> real \<Rightarrow> rng \<Rightarrow> heap \<Rightarrow>
   (pyerr + edge list) \<times> heap" where
  "ConnectomeGolgiGlomerulus_connect glomeruli golgis GoCaxon_x GoCaxon_y GoCaxon_z r_glom n_conn_goc
      layer_thickness config_X g h =
     (case h ! glomeruli of
        [] \<Rightarrow> (Inl IndexError, h)
      | c # _ \<Rightarrow>
          connectome_goc_glom (py_int (cid c)) glomeruli golgis GoCaxon_x GoCaxon_y GoCaxon_z r_glom
            n_conn_goc layer_thickness (config_X * 1000) g h)"

text \<open>
  \<^verbatim>\<open>ConnectomeGranuleGolgi.connect\<close> computes the fiber heights and appends them as a dataset
  before it runs the legacy block; the value is the dataset, the two edge lists and the lines
  printed.
\<close>

definition ConnectomeGranuleGolgi_connect ::
  "(cell list \<Rightarrow> (real \<times> real) list) \<Rightarrow> nat \<Rightarrow> nat \<Rightarrow> real \<Rightarrow> real \<Rightarrow> nat \<Rightarrow> nat \<Rightarrow> int \<Rightarrow> rng \<Rightarrow> heap \<Rightarrow>
   (pyerr + (real \<times> real) list \<times> edge list \<times> edge list \<times> string list) \<times> heap" where
  "ConnectomeGranuleGolgi_connect get_parallel_fiber_heights granules golgis r_goc_vol config_X
      aa_convergence pf_convergence verbosity g h =
     (case h ! granules of
        [] \<Rightarrow> (Inl IndexError, h)
      | c # _ \<Rightarrow>
          (let pf_heights = get_parallel_fiber_heights (h ! granules)
           in case connectome_grc_goc (py_int (cid c)) granules golgis r_goc_vol (config_X * 1000)
                     aa_convergence pf_convergence (aa_convergence + pf_convergence) verbosity g h of
                (Inl e, h1) \<Rightarrow> (Inl e, h1)
              | (Inr result, h1) \<Rightarrow> (Inr (pf_heights, result), h1)))"

definition ConnectomeGolgiGranule_connect ::
  "(string \<Rightarrow> edge list option) \<Rightarrow> nat \<Rightarrow> heap \<Rightarrow> (pyerr + edge list) \<times> heap" where
  "ConnectomeGolgiGranule_connect cell_connections_by_tag golgis h =
     (goc_grc_connect cell_connections_by_tag (h ! golgis), h)"

definition ConnectomeAscAxonPurkinje_connect ::
  "nat \<Rightarrow> nat \<Rightarrow> real \<Rightarrow> real \<Rightarrow> real \<Rightarrow> heap \<Rightarrow> (pyerr + edge list) \<times> heap" where
  "ConnectomeAscAxonPurkinje_connect granules purkinjes config_X extension_x extension_z h =
     (case h ! granules of
        [] \<Rightarrow> (Inl IndexError, h)
      | c # _ \<Rightarrow>
          connectome_aa_pc (py_int (cid c)) granules purkinjes extension_x extension_z
            (config_X * 1000) h)"

definition ConnectomePFPurkinje_connect ::
  "nat \<Rightarrow> nat \<Rightarrow> real \<Rightarrow> heap \<Rightarrow> (pyerr + edge list) \<times> heap" where
  "ConnectomePFPurkinje_connect granules purkinjes extension_x h =
     (case h ! granules of
        [] \<Rightarrow> (Inl IndexError, h)
      | c # _ \<Rightarrow>
          (Inr (connectome_pf_pc (py_int (cid c)) (h ! granules) (h ! purkinjes) extension_x), h))"

text \<open>
  \<^verbatim>\<open>ConnectomePFInterneuron.connect\<close> reads column 1 of the dataset
  \<^verbatim>\<open>cells/ascending_axon_lengths\<close> from \<^verbatim>\<open>scaffold.appends\<close>, a dictionary, and adds the granule
  y coordinates to it.
\<close>

definition ConnectomePFInterneuron_connect ::
  "(string \<Rightarrow> (real \<times> real) list option) \<Rightarrow> nat \<Rightarrow> nat \<Rightarrow> real \<Rightarrow> heap \<Rightarrow> (pyerr + edge list) \<times> heap" where
  "ConnectomePFInterneuron_connect appends granules interneurons dendrite_radius h =
     (case h ! granules of
        [] \<Rightarrow> (Inl IndexError, h)
      | c # _ \<Rightarrow>
          (case appends ''cells/ascending_axon_lengths'' of
             None \<Rightarrow> (Inl KeyError, h)
           | Some lengths \<Rightarrow>
               (case np_broadcast (\<lambda>a b. a + b) (map snd lengths) (map cy (h ! granules)) of
                  Inl e \<Rightarrow> (Inl e, h)
                | Inr pf_heights \<Rightarrow>
                    (connectome_pf_inter (py_int (cid c)) (h ! interneurons) (h ! granules)
                       dendrite_radius pf_heights, h))))"

text \<open>\<^verbatim>\<open>ConnectomeBCSCPurkinje.connect\<close> reads the first stellate id, then the first basket id.\<close>

definition ConnectomeBCSCPurkinje_connect ::
  "nat \<Rightarrow> nat \<Rightarrow> nat \<Rightarrow> real \<Rightarrow> real \<Rightarrow> nat \<Rightarrow> rng \<Rightarrow> heap \<Rightarrow> (pyerr + edge list \<times> edge list) \<times> heap" where
  "ConnectomeBCSCPurkinje_connect baskets stellates purkinjes limit_x limit_z convergence g h =
     (case h ! stellates of
        [] \<Rightarrow> (Inl IndexError, h)
      | s # _ \<Rightarrow>
          (case h ! baskets of
             [] \<Rightarrow> (Inl IndexError, h)
           | b # _ \<Rightarrow>
               (Inr (connectome_sc_bc_pc (py_int (cid s)) (py_int (cid b)) (h ! baskets) (h ! stellates)
                       (h ! purkinjes) limit_x limit_z convergence g), h)))"

definition ConnectomeGapJunctions_connect ::
  "nat \<Rightarrow> real \<Rightarrow> real \<Rightarrow> nat \<Rightarrow> rng \<Rightarrow> heap \<Rightarrow> (pyerr + edge list) \<times> heap" where
  "ConnectomeGapJunctions_connect from_cells limit_xy limit_z divergence g h =
     (gap_junctions_connect (h ! from_cells) limit_xy limit_z divergence g, h)"

definition ConnectomeGapJunctionsGolgi_connect ::
  "nat \<Rightarrow> real \<Rightarrow> real \<Rightarrow> real \<Rightarrow> real \<Rightarrow> heap \<Rightarrow> (pyerr + edge list) \<times> heap" where
  "ConnectomeGapJunctionsGolgi_connect golgis r_goc_vol GoCaxon_x GoCaxon_y GoCaxon_z h =
     (case h ! golgis of
        [] \<Rightarrow> (Inl IndexError, h)
      | c # _ \<Rightarrow>
          (connectome_gj_goc r_goc_vol GoCaxon_x GoCaxon_y GoCaxon_z (h ! golgis) (py_int (cid c)), h))"

text \<open>
  \<^verbatim>\<open>ConnectomePurkinjeDCN.connect\<close> computes the DCN rotations and appends them as a dataset,
  then returns without a connection when there is no DCN cell; the value is the dataset and,
  when the legacy block ran, its edge list.
\<close>

definition ConnectomePurkinjeDCN_connect ::
  "(cell list \<Rightarrow> (real \<times> real \<times> real \<times> real) list) \<Rightarrow> nat \<Rightarrow> nat \<Rightarrow> nat \<Rightarrow> rng \<Rightarrow> heap \<Rightarrow>
   (pyerr + (real \<times> real \<times> real \<times> real) list \<times> edge list option) \<times> heap" where
  "ConnectomePurkinjeDCN_connect get_dcn_rotations purkinjes dcn_cells divergence g h =
     (let dcn_angles = get_dcn_rotations (h ! dcn_cells)
      in case h ! dcn_cells of
           [] \<Rightarrow> (Inr (dcn_angles, None), h)
         | c # _ \<Rightarrow>
             (case connectome_pc_dcn (py_int (cid c)) (h ! purkinjes) (h ! dcn_cells) divergence
                     dcn_angles g of
                Inl e \<Rightarrow> (Inl e, h)
              | Inr results \<Rightarrow> (Inr (dcn_angles, Some results), h)))"

definition ConnectomeGlomDCN_connect ::
  "nat \<Rightarrow> nat \<Rightarrow> nat \<Rightarrow> rng \<Rightarrow> heap \<Rightarrow> (pyerr + edge list) \<times> heap" where
  "ConnectomeGlomDCN_connect glomeruli dcn_cells convergence g h =
     (case h ! glomeruli of
        [] \<Rightarrow> (Inl IndexError, h)
      | c # _ \<Rightarrow>
          (connectome_glom_dcn (py_int (cid c)) (h ! glomeruli) (h ! dcn_cells) convergence g, h))"

section \<open>The concrete scenario of the specification\<close>

text \<open>
  Ten from-entities at x = 0..9 and two to-entities at x = 0 and x = 9, all with y = z = 0;
  the from-entities have the ids 0..9 and the to-entities the ids 10 and 11.
\<close>

definition scenario_from :: "cell list" where
  "scenario_from = map (\<lambda>k. \<lparr>cid = real k, ctype = 0, cx = real k, cy = 0, cz = 0\<rparr>) [0..<10]"

definition scenario_to0 :: cell where
  "scenario_to0 = \<lparr>cid = 10, ctype = 1, cx = 0, cy = 0, cz = 0\<rparr>"

definition scenario_to9 :: cell where
  "scenario_to9 = \<lparr>cid = 11, ctype = 1, cx = 9, cy = 0, cz = 0\<rparr>"

section \<open>The invariant of ConnectomeGolgiGlomerulus\<close>


section \<open>Basic facts\<close>

lemma length_insert_at: "length (insert_at k x ys) = Suc (length ys)"
  by (induction k x ys rule: insert_at.induct) simp_all

lemma mset_insert_at: "mset (insert_at k x ys) = add_mset x (mset ys)"
  by (induction k x ys rule: insert_at.induct) simp_all

lemma mset_shuffle: "mset (shuffle ds xs) = mset xs"
  by (induction xs arbitrary: ds) (simp_all add: mset_insert_at)

lemma length_shuffle: "length (shuffle ds xs) = length xs"
  using mset_shuffle [of ds xs] by (metis size_mset)

lemma set_shuffle: "set (shuffle ds xs) = set xs"
  using mset_shuffle [of ds xs] by (metis set_mset_mset)




lemma length_argsort: "length (argsort ties ks) = length ks"
  by (simp add: argsort_def length_shuffle)

lemma length_glom_grc_row:
  "length (fst (glom_grc_row first_glomerulus glomeruli dend_len n_conn_glom gran g)) =
     min n_conn_glom (length (good_gloms glomeruli dend_len gran))"
  by (simp add: glom_grc_row_def Let_def case_prod_beta)

subsection \<open>Writes stay in the working copy\<close>

lemma set_rows_frame:
  "set_rows a idx v h = Inr h1 \<Longrightarrow> n \<le> a \<Longrightarrow> take n h1 = take n h"
  by (auto simp: set_rows_def split: sum.splits)

lemma for_rows_frame:
  assumes "\<And>c s h. take n (snd (body c s h)) = take n h"
  shows "take n (snd (for_rows body cs s h)) = take n h"
proof (induction cs arbitrary: s h)
  case Nil
  show ?case by simp
next
  case (Cons c cs)
  obtain r h1 where b: "body c s h = (r, h1)"
    by (cases "body c s h")
  have h1: "take n h1 = take n h"
    using assms [of c s h] b by simp
  show ?case
  proof (cases r)
    case (Inl e)
    with b h1 show ?thesis by simp
  next
    case (Inr s1)
    with b h1 Cons.IH [of s1 h1] show ?thesis by simp
  qed
qed

lemma goc_glom_candidate_frame:
  "n \<le> new_glomeruli \<Longrightarrow>
   take n (snd (goc_glom_candidate first_glomerulus new_glomeruli n_conn_goc golgi_id oob cand s h)) =
     take n h"
  by (auto simp: goc_glom_candidate_def Let_def split: prod.splits sum.splits dest: set_rows_frame)

lemma goc_glom_golgi_frame:
  "n \<le> new_glomeruli \<Longrightarrow>
   take n (snd (goc_glom_golgi first_glomerulus glomeruli new_glomeruli GoCaxon_x GoCaxon_y GoCaxon_z
      r_glom n_conn_goc layer_thickness oob golgi s h)) = take n h"
  by (simp add: goc_glom_golgi_def Let_def case_prod_beta for_rows_frame
      goc_glom_candidate_frame split: sum.split)

lemma connectome_goc_glom_frame:
  "take (length h) (snd (connectome_goc_glom first_glomerulus glomeruli golgicells GoCaxon_x GoCaxon_y
      GoCaxon_z r_glom n_conn_goc layer_thickness oob g h)) = h"
proof -
  have F: "\<And>cs s0. take (length h)
             (snd (for_rows (goc_glom_golgi first_glomerulus glomeruli (length h) GoCaxon_x GoCaxon_y
                GoCaxon_z r_glom n_conn_goc layer_thickness oob) cs s0 (h @ [h ! glomeruli]))) =
           take (length h) (h @ [h ! glomeruli])"
    by (rule for_rows_frame) (rule goc_glom_golgi_frame, simp)
  show ?thesis
    by (simp add: connectome_goc_glom_def np_copy_def Let_def case_prod_beta F split: sum.split)
qed

lemma grc_goc_golgi_frame:
  "n \<le> new_granules \<Longrightarrow>
   take n (snd (grc_goc_golgi first_granule granules new_granules r_goc_vol OoB_value n_connAA
      tot_conn verbosity golgi s h)) = take n h"
  unfolding grc_goc_golgi_def Let_def
  by (auto split: prod.splits sum.splits if_splits dest: set_rows_frame)

lemma connectome_grc_goc_frame:
  "take (length h) (snd (connectome_grc_goc first_granule granules golgicells r_goc_vol OoB_value
     n_connAA n_conn_pf tot_conn verbosity g h)) = h"
proof -
  have F: "\<And>cs s0. take (length h)
             (snd (for_rows (grc_goc_golgi first_granule granules (length h) r_goc_vol OoB_value
                n_connAA tot_conn verbosity) cs s0 (h @ [h ! granules]))) =
           take (length h) (h @ [h ! granules])"
    by (rule for_rows_frame) (rule grc_goc_golgi_frame, simp)
  show ?thesis
    by (simp add: connectome_grc_goc_def np_copy_def Let_def case_prod_beta F split: sum.split)
qed

lemma aa_pc_purkinje_frame:
  "n \<le> new_granules \<Longrightarrow>
   take n (snd (aa_pc_purkinje first_granule new_granules x_pc z_pc OoB_value i aa_pc h)) = take n h"
  unfolding aa_pc_purkinje_def Let_def
  by (auto split: prod.splits sum.splits dest: set_rows_frame)

lemma connectome_aa_pc_frame:
  "take (length h) (snd (connectome_aa_pc first_granule granules purkinjes x_pc z_pc OoB_value h)) = h"
proof -
  have F: "\<And>cs s0. take (length h)
             (snd (for_rows (aa_pc_purkinje first_granule (length h) x_pc z_pc OoB_value)
                cs s0 (h @ [h ! granules]))) =
           take (length h) (h @ [h ! granules])"
    by (rule for_rows_frame) (rule aa_pc_purkinje_frame, simp)
  show ?thesis
    unfolding connectome_aa_pc_def np_copy_def Let_def
    using F by simp
qed

subsection \<open>The store after each connect method\<close>

lemma pass_connect_frame: "take (length h) (snd (pass_connect h)) = h"
  by (simp add: pass_connect_def)

lemma ConnectomeGlomerulusGranule_connect_frame:
  "take (length h) (snd (ConnectomeGlomerulusGranule_connect glomeruli granules dend_len n_conn_glom
      g h)) = h"
  by (simp add: ConnectomeGlomerulusGranule_connect_def)

lemma ConnectomeGlomerulusGolgi_connect_frame:
  "take (length h) (snd (ConnectomeGlomerulusGolgi_connect glomeruli golgis r_goc_vol h)) = h"
  by (simp add: ConnectomeGlomerulusGolgi_connect_def split: list.split)

lemma ConnectomeGolgiGlomerulus_connect_frame:
  "take (length h) (snd (ConnectomeGolgiGlomerulus_connect glomeruli golgis GoCaxon_x GoCaxon_y
      GoCaxon_z r_glom n_conn_goc layer_thickness config_X g h)) = h"
  by (simp add: ConnectomeGolgiGlomerulus_connect_def connectome_goc_glom_frame split: list.split)

lemma ConnectomeGranuleGolgi_connect_frame:
  "take (length h) (snd (ConnectomeGranuleGolgi_connect get_parallel_fiber_heights granules golgis
      r_goc_vol config_X aa_convergence pf_convergence verbosity g h)) = h"
proof (cases "h ! granules")
  case Nil
  then show ?thesis
    by (simp add: ConnectomeGranuleGolgi_connect_def)
next
  case (Cons c cs)
  let ?r = "connectome_grc_goc (py_int (cid c)) granules golgis r_goc_vol (config_X * 1000)
              aa_convergence pf_convergence (aa_convergence + pf_convergence) verbosity g h"
  have "snd (ConnectomeGranuleGolgi_connect get_parallel_fiber_heights granules golgis
      r_goc_vol config_X aa_convergence pf_convergence verbosity g h) = snd ?r"
    using Cons by (cases ?r) (simp add: ConnectomeGranuleGolgi_connect_def split: sum.split)
  then show ?thesis
    by (simp add: connectome_grc_goc_frame)
qed

lemma ConnectomeGolgiGranule_connect_frame:
  "take (length h) (snd (ConnectomeGolgiGranule_connect cell_connections_by_tag golgis h)) = h"
  by (simp add: ConnectomeGolgiGranule_connect_def)

lemma ConnectomeAscAxonPurkinje_connect_frame:
  "take (length h) (snd (ConnectomeAscAxonPurkinje_connect granules purkinjes config_X extension_x
      extension_z h)) = h"
  by (simp add: ConnectomeAscAxonPurkinje_connect_def connectome_aa_pc_frame split: list.split)

lemma ConnectomePFPurkinje_connect_frame:
  "take (length h) (snd (ConnectomePFPurkinje_connect granules purkinjes extension_x h)) = h"
  by (simp add: ConnectomePFPurkinje_connect_def split: list.split)

lemma ConnectomePFInterneuron_connect_frame:
  "take (length h) (snd (ConnectomePFInterneuron_connect appends granules interneurons
      dendrite_radius h)) = h"
  by (simp add: ConnectomePFInterneuron_connect_def split: list.split option.split sum.split)

lemma ConnectomeBCSCPurkinje_connect_frame:
  "take (length h) (snd (ConnectomeBCSCPurkinje_connect baskets stellates purkinjes limit_x limit_z
      convergence g h)) = h"
  by (simp add: ConnectomeBCSCPurkinje_connect_def split: list.split)

lemma ConnectomeGapJunctions_connect_frame:
  "take (length h) (snd (ConnectomeGapJunctions_connect from_cells limit_xy limit_z divergence g h)) = h"
  by (simp add: ConnectomeGapJunctions_connect_def)

lemma ConnectomeGapJunctionsGolgi_connect_frame:
  "take (length h) (snd (ConnectomeGapJunctionsGolgi_connect golgis r_goc_vol GoCaxon_x GoCaxon_y
      GoCaxon_z h)) = h"
  by (simp add: ConnectomeGapJunctionsGolgi_connect_def split: list.split)

lemma ConnectomePurkinjeDCN_connect_frame:
  "take (length h) (snd (ConnectomePurkinjeDCN_connect get_dcn_rotations purkinjes dcn_cells
      divergence g h)) = h"
  by (simp add: ConnectomePurkinjeDCN_connect_def Let_def split: list.split sum.split)

lemma ConnectomeGlomDCN_connect_frame:
  "take (length h) (snd (ConnectomeGlomDCN_connect glomeruli dcn_cells convergence g h)) = h"
  by (simp add: ConnectomeGlomDCN_connect_def split: list.split)

lemma TouchDetector_connect_frame:
  "take (length h) (snd (TouchDetector_connect globals get_search_radius self h)) = h"
  by (simp add: TouchDetector_connect_def split: sum.split)

lemma Satellite_connect_frame:
  "take (length h) (snd (Satellite_connect cell_connections_by_tag n_after after_connection to_type
      h)) = h"
  by (simp add: Satellite_connect_def Let_def split: sum.split option.split)

subsection \<open>Grouping prior edges by Golgi cell and by glomerulus\<close>

lemma mset_map_filter_disj:
  "(\<And>x. P x \<Longrightarrow> Q x \<Longrightarrow> False) \<Longrightarrow>
   mset (map f (filter (\<lambda>x. P x \<or> Q x) xs)) = mset (map f (filter P xs)) + mset (map f (filter Q xs))"
  by (induction xs) auto

lemma mset_concat_filter_disj:
  "(\<And>x. P x \<Longrightarrow> Q x \<Longrightarrow> False) \<Longrightarrow>
   mset (concat (map c (filter (\<lambda>x. P x \<or> Q x) xs))) =
     mset (concat (map c (filter P xs))) + mset (concat (map c (filter Q xs)))"
  by (induction xs) auto

lemma mset_concat_cong:
  "(\<And>x. x \<in> set xs \<Longrightarrow> mset (F x) = mset (F' x)) \<Longrightarrow>
   mset (concat (map F xs)) = mset (concat (map F' xs))"
  by (induction xs) auto

lemma via_gloms_split:
  "distinct ms \<Longrightarrow>
   mset (connected_granules_via_gloms glom_grc ms) =
     mset (concat (map (\<lambda>m. map snd (filter (\<lambda>e2. fst e2 = m) glom_grc)) ms))"
proof (induction ms)
  case Nil
  show ?case by (simp add: connected_granules_via_gloms_def)
next
  case (Cons m ms)
  have d: "\<And>x. fst x = m \<Longrightarrow> fst x \<in> set ms \<Longrightarrow> False"
    using Cons.prems by auto
  have "mset (connected_granules_via_gloms glom_grc (m # ms)) =
          mset (map snd (filter (\<lambda>x. fst x = m \<or> fst x \<in> set ms) glom_grc))"
    by (simp add: connected_granules_via_gloms_def)
  also have "\<dots> = mset (map snd (filter (\<lambda>x. fst x = m) glom_grc)) +
                   mset (map snd (filter (\<lambda>x. fst x \<in> set ms) glom_grc))"
    by (rule mset_map_filter_disj) (rule d)
  also have "\<dots> = mset (map snd (filter (\<lambda>x. fst x = m) glom_grc)) +
                   mset (connected_granules_via_gloms glom_grc ms)"
    by (simp add: connected_granules_via_gloms_def)
  finally show ?case
    using Cons by simp
qed

lemma distinct_connected_glomeruli:
  "distinct goc_glom \<Longrightarrow> distinct (connected_glomeruli goc_glom golgi_id)"
proof -
  assume d: "distinct goc_glom"
  have "inj_on snd (set (filter (\<lambda>row. fst row = golgi_id) goc_glom))"
    by (rule inj_onI) (auto intro: prod_eqI)
  with d show ?thesis
    by (simp add: connected_glomeruli_def distinct_map)
qed

lemma golgi_edges_as_join:
  "distinct goc_glom \<Longrightarrow>
   mset (map (\<lambda>granule. (golgi_id, granule))
          (connected_granules_via_gloms glom_grc (connected_glomeruli goc_glom golgi_id))) =
   mset (concat (map (\<lambda>e1. map (\<lambda>e2. (fst e1, snd e2)) (filter (\<lambda>e2. fst e2 = snd e1) glom_grc))
                  (filter (\<lambda>e1. fst e1 = golgi_id) goc_glom)))"
proof -
  assume d: "distinct goc_glom"
  let ?ms = "connected_glomeruli goc_glom golgi_id"
  have "mset (map (\<lambda>granule. (golgi_id, granule)) (connected_granules_via_gloms glom_grc ?ms)) =
        image_mset (\<lambda>granule. (golgi_id, granule)) (mset (connected_granules_via_gloms glom_grc ?ms))"
    by simp
  also have "\<dots> = image_mset (\<lambda>granule. (golgi_id, granule))
                     (mset (concat (map (\<lambda>m. map snd (filter (\<lambda>e2. fst e2 = m) glom_grc)) ?ms)))"
    using via_gloms_split [OF distinct_connected_glomeruli [OF d]] by simp
  also have "\<dots> = mset (map (\<lambda>granule. (golgi_id, granule))
                     (concat (map (\<lambda>m. map snd (filter (\<lambda>e2. fst e2 = m) glom_grc)) ?ms)))"
    by simp
  also have "map (\<lambda>granule. (golgi_id, granule))
                     (concat (map (\<lambda>m. map snd (filter (\<lambda>e2. fst e2 = m) glom_grc)) ?ms)) =
             concat (map (\<lambda>e1. map (\<lambda>e2. (fst e1, snd e2)) (filter (\<lambda>e2. fst e2 = snd e1) glom_grc))
                  (filter (\<lambda>e1. fst e1 = golgi_id) goc_glom))"
    by (induction goc_glom) (auto simp: connected_glomeruli_def)
  finally show ?thesis .
qed

lemma group_by_golgi:
  "distinct ids \<Longrightarrow>
   mset (concat (map (\<lambda>g. concat (map c (filter (\<lambda>e1. fst e1 = g) goc_glom))) ids)) =
   mset (concat (map c (filter (\<lambda>e1. fst e1 \<in> set ids) goc_glom)))"
proof (induction ids)
  case Nil
  show ?case by simp
next
  case (Cons g ids)
  have d: "\<And>x. fst x = g \<Longrightarrow> fst x \<in> set ids \<Longrightarrow> False"
    using Cons.prems by auto
  have "mset (concat (map c (filter (\<lambda>e1. fst e1 \<in> set (g # ids)) goc_glom))) =
        mset (concat (map c (filter (\<lambda>e1. fst e1 = g \<or> fst e1 \<in> set ids) goc_glom)))"
    by simp
  also have "\<dots> = mset (concat (map c (filter (\<lambda>e1. fst e1 = g) goc_glom))) +
                   mset (concat (map c (filter (\<lambda>e1. fst e1 \<in> set ids) goc_glom)))"
    by (rule mset_concat_filter_disj) (rule d)
  finally show ?case
    using Cons by simp
qed

text \<open>
  The join counts an edge \<open>(g, k)\<close> once for every glomerulus that an edge of the first set
  and an edge of the second set share.
\<close>

lemma count_concat_map:
  "count (mset (concat (map F xs))) x = sum_list (map (\<lambda>e. count (mset (F e)) x) xs)"
  by (induction xs) simp_all

lemma count_mset_map: "count (mset (map f xs)) y = length (filter (\<lambda>x. f x = y) xs)"
  by (induction xs) auto

lemma count_join_row:
  assumes "distinct T"
  shows "count (mset (map (\<lambda>e2. (fst e1, snd e2)) (filter (\<lambda>e2. fst e2 = snd e1) T))) (g, k) =
         (if fst e1 = g \<and> (snd e1, k) \<in> set T then 1 else 0)"
proof -
  have c: "count (mset T) (snd e1, k) = length (filter (\<lambda>e2. e2 = (snd e1, k)) T)"
    using count_mset_map [of "\<lambda>x. x" T "(snd e1, k)"] by simp
  have "count (mset (map (\<lambda>e2. (fst e1, snd e2)) (filter (\<lambda>e2. fst e2 = snd e1) T))) (g, k) =
        length (filter (\<lambda>e2. (fst e1, snd e2) = (g, k)) (filter (\<lambda>e2. fst e2 = snd e1) T))"
    by (rule count_mset_map)
  also have "\<dots> = length (filter (\<lambda>e2. fst e1 = g \<and> e2 = (snd e1, k)) T)"
    unfolding filter_filter
    by (rule arg_cong [where f = length], rule filter_cong) (auto simp: prod_eq_iff)
  also have "\<dots> = (if fst e1 = g then count (mset T) (snd e1, k) else 0)"
    unfolding c by (cases "fst e1 = g") simp_all
  also have "\<dots> = (if fst e1 = g \<and> (snd e1, k) \<in> set T then 1 else 0)"
    using assms by (simp add: distinct_count_atmost_1)
  finally show ?thesis .
qed

lemma count_relational_join:
  "count (relational_join goc_glom glom_grc) (g, k) =
     card {m. (g, m) \<in> set goc_glom \<and> (m, k) \<in> set glom_grc}"
proof -
  let ?G = "remdups goc_glom" and ?T = "remdups glom_grc"
  let ?P = "\<lambda>e1. fst e1 = g \<and> (snd e1, k) \<in> set ?T"
  let ?S = "set ?G \<inter> {e1. ?P e1}"
  have "count (relational_join goc_glom glom_grc) (g, k) =
        sum_list (map (\<lambda>e1. if ?P e1 then 1 else 0) ?G)"
    unfolding relational_join_def count_concat_map
    by (simp only: count_join_row [OF distinct_remdups])
  also have "\<dots> = (\<Sum>e1 \<in> set ?G. if ?P e1 then 1 else 0)"
    by (rule sum_list_distinct_conv_sum_set) simp
  also have "\<dots> = card ?S"
    by (simp only: sum.If_cases [OF finite_set] sum.neutral_const sum_constant) simp
  also have "\<dots> = card (snd ` ?S)"
    by (rule card_image [symmetric]) (auto simp: inj_on_def prod_eq_iff)
  also have "snd ` ?S = {m. (g, m) \<in> set goc_glom \<and> (m, k) \<in> set glom_grc}"
  proof (rule set_eqI)
    fix m
    show "m \<in> snd ` ?S \<longleftrightarrow> m \<in> {m. (g, m) \<in> set goc_glom \<and> (m, k) \<in> set glom_grc}"
    proof
      assume "m \<in> snd ` ?S"
      then obtain e1 where e: "e1 \<in> set goc_glom" "fst e1 = g" "(snd e1, k) \<in> set glom_grc"
          "m = snd e1"
        by auto
      have "e1 = (g, m)"
        using e(2,4) by (simp add: prod_eq_iff)
      with e(1,3) show "m \<in> {m. (g, m) \<in> set goc_glom \<and> (m, k) \<in> set glom_grc}"
        by simp
    next
      assume "m \<in> {m. (g, m) \<in> set goc_glom \<and> (m, k) \<in> set glom_grc}"
      then have "(g, m) \<in> ?S"
        by simp
      then show "m \<in> snd ` ?S"
        by (rule image_eqI [rotated]) simp
    qed
  qed
  finally show ?thesis .
qed

text \<open>The code tests membership among the glomeruli of a Golgi cell: a repeated prior edge counts once.\<close>

lemma connectome_goc_grc_remdups:
  "connectome_goc_grc golgis glom_grc (remdups goc_glom) = connectome_goc_grc golgis glom_grc goc_glom"
proof -
  have "\<And>golgi_id. set (connected_glomeruli (remdups goc_glom) golgi_id) =
                    set (connected_glomeruli goc_glom golgi_id)"
    by (simp add: connected_glomeruli_def)
  then show ?thesis
    by (simp add: connectome_goc_grc_def connected_granules_via_gloms_def)
qed

text \<open>The legacy block of ConnectomeGolgiGranule against the relational join.\<close>

lemma connectome_goc_grc_join:
  assumes "distinct glom_grc"
    and "distinct (map cid golgis)"
    and "fst ` set goc_glom \<subseteq> cid ` set golgis"
  shows "mset (connectome_goc_grc golgis glom_grc goc_glom) = relational_join goc_glom glom_grc"
proof -
  let ?G = "remdups goc_glom"
  let ?c = "\<lambda>e1. map (\<lambda>e2. (fst e1, snd e2)) (filter (\<lambda>e2. fst e2 = snd e1) glom_grc)"
  have d: "distinct ?G"
    by simp
  have all: "filter (\<lambda>e1. fst e1 \<in> set (map cid golgis)) ?G = ?G"
    using assms(3) by (auto simp: filter_id_conv)
  have "mset (connectome_goc_grc golgis glom_grc goc_glom) =
        mset (connectome_goc_grc golgis glom_grc ?G)"
    by (simp only: connectome_goc_grc_remdups)
  also have "\<dots> =
        mset (concat (map (\<lambda>g. concat (map ?c (filter (\<lambda>e1. fst e1 = g) ?G))) (map cid golgis)))"
    unfolding connectome_goc_grc_def
    by (rule mset_concat_cong) (rule golgi_edges_as_join [OF d])
  also have "\<dots> = mset (concat (map ?c (filter (\<lambda>e1. fst e1 \<in> set (map cid golgis)) ?G)))"
    by (rule group_by_golgi [OF assms(2)])
  finally show ?thesis
    using assms(1) by (simp only: all relational_join_def distinct_remdups_id)
qed

subsection \<open>Accepted glomeruli are not accepted again\<close>













text \<open>
  The bound on the sentinel cannot be dropped. With two glomeruli (ids 0 and 1) and two Golgi
  cells (ids 2 and 3) at the same place, layer thickness 4, every roll one half and a sentinel
  within reach of the Golgi cells, here 1, the first Golgi cell takes both glomeruli and the
  second one accepts the two overwritten rows, whose id column reads 1.
\<close>

lemma goc_glom_sentinel_in_reach:
  "fst (connectome_goc_glom 0 0 1 2 2 2 1 2 4 1
          \<lparr>perm_draws = [], unif_draws = [1 / 2, 1 / 2, 1 / 2, 1 / 2], tie_draws = []\<rparr>
          [[\<lparr>cid = 0, ctype = 0, cx = 0, cy = 1, cz = 0\<rparr>, \<lparr>cid = 1, ctype = 0, cx = 0, cy = 1, cz = 0\<rparr>],
           [\<lparr>cid = 2, ctype = 1, cx = 0, cy = 1, cz = 0\<rparr>, \<lparr>cid = 3, ctype = 1, cx = 0, cy = 1, cz = 0\<rparr>]])
     = Inr [(2, 0), (2, 1), (3, 1), (3, 1)]"
  by (simp add: connectome_goc_glom_def np_copy_def np_permutation_def
       goc_glom_golgi_def goc_glom_candidate_def goc_glom_gate_def goc_glom_distance_def np_div_def
       np_where_def rows_at_def np_argsort_def argsort_def
       np_random_def set_rows_def py_index_def py_int_def sentinel_row_def Let_def frac_def)

subsection \<open>Candidates, samples and errors of the other blocks\<close>

lemma np_where_set: "set (np_where (map P xs)) = {i. i < length xs \<and> P (xs ! i)}"
  by (auto simp: np_where_def)

lemma gj_walk_edges:
  "e \<in> set (fst (gj_walk d_xy d_z dc_gj c candidates idx gj_sc g)) \<Longrightarrow>
   e \<in> set gj_sc \<or> (fst e = cid c \<and> snd e \<in> cid ` set candidates)"
proof (induction candidates arbitrary: idx gj_sc g)
  case Nil
  then show ?case by simp
next
  case (Cons j candidates)
  show ?case
  proof (cases "idx \<le> dc_gj")
    case False
    with Cons.prems Cons.IH [of idx gj_sc g] show ?thesis
      by auto
  next
    case True
    obtain ra g1 where r: "np_random g = (ra, g1)"
      by (cases "np_random g")
    show ?thesis
    proof (cases "gj_accept d_xy d_z c j ra")
      case True
      with \<open>idx \<le> dc_gj\<close> r Cons.prems
      have "e \<in> set (fst (gj_walk d_xy d_z dc_gj c candidates (idx + 1) (gj_sc @ [(cid c, cid j)]) g1))"
        by simp
      from Cons.IH [OF this] show ?thesis
        by auto
    next
      case False
      with \<open>idx \<le> dc_gj\<close> r Cons.prems
      have "e \<in> set (fst (gj_walk d_xy d_z dc_gj c candidates idx gj_sc g1))"
        by simp
      from Cons.IH [OF this] show ?thesis
        by auto
    qed
  qed
qed

lemma gj_cells_loop_edges:
  "e \<in> set (fst (gj_cells_loop d_xy d_z dc_gj cells todo gj_sc g)) \<Longrightarrow>
   e \<in> set gj_sc \<or>
   (\<exists>c \<in> set todo. \<exists>j \<in> set cells. gj_constraint d_xy d_z c j \<and> fst e = cid c \<and> snd e = cid j)"
proof (induction todo arbitrary: gj_sc g)
  case Nil
  then show ?case by simp
next
  case (Cons c todo)
  define good_sc where "good_sc = np_where (map (gj_constraint d_xy d_z c) cells)"
  define chosen_rand where "chosen_rand = fst (np_permutation good_sc g)"
  define g1 where "g1 = snd (np_permutation good_sc g)"
  define candidates where "candidates = rows_at cells chosen_rand"
  define gj_sc1 where "gj_sc1 = fst (gj_walk d_xy d_z dc_gj c candidates 1 gj_sc g1)"
  define g2 where "g2 = snd (gj_walk d_xy d_z dc_gj c candidates 1 gj_sc g1)"
  have cands: "\<forall>j \<in> set candidates. j \<in> set cells \<and> gj_constraint d_xy d_z c j"
    by (auto simp: candidates_def rows_at_def chosen_rand_def np_permutation_def set_shuffle
        good_sc_def np_where_set)
  have "e \<in> set (fst (gj_cells_loop d_xy d_z dc_gj cells todo gj_sc1 g2))"
    using Cons.prems
    by (simp add: Let_def case_prod_beta good_sc_def chosen_rand_def g1_def candidates_def
        gj_sc1_def g2_def)
  from Cons.IH [OF this] consider "e \<in> set gj_sc1"
    | "\<exists>c \<in> set todo. \<exists>j \<in> set cells. gj_constraint d_xy d_z c j \<and> fst e = cid c \<and> snd e = cid j"
    by blast
  then show ?case
  proof cases
    case 1
    then have "e \<in> set gj_sc \<or> (fst e = cid c \<and> snd e \<in> cid ` set candidates)"
      unfolding gj_sc1_def by (rule gj_walk_edges)
    with cands show ?thesis
      by auto
  next
    case 2
    then show ?thesis by auto
  qed
qed

lemma gap_junctions_no_self_edge:
  assumes "distinct (map cid cells)"
    and "e \<in> set (gap_junctions cells d_xy d_z dc_gj g)"
  shows "fst e \<noteq> snd e"
proof -
  from assms(2) gj_cells_loop_edges [of e d_xy d_z dc_gj cells cells "[]" g]
  obtain c j where cj: "c \<in> set cells" "j \<in> set cells" "gj_constraint d_xy d_z c j"
      "fst e = cid c" "snd e = cid j"
    by (auto simp: gap_junctions_def)
  then have "c \<noteq> j"
    by (auto simp: gj_constraint_def)
  with assms(1) cj show ?thesis
    by (auto simp: distinct_map inj_on_def)
qed

lemma glom_dcn_loop_supplied:
  "conv_dcn \<le> length glomeruli \<Longrightarrow>
   \<exists>es. glom_dcn_loop glomeruli conv_dcn dcn_glut glom_dcn g = Inr (glom_dcn @ es) \<and>
        map snd es = concat (map (\<lambda>i. replicate conv_dcn (cid i)) dcn_glut)"
proof (induction dcn_glut arbitrary: glom_dcn g)
  case Nil
  then show ?case by simp
next
  case (Cons i dcn_glut)
  define p where "p = take conv_dcn (shuffle (perm_draws g) (map cid glomeruli))"
  define g1 where "g1 = g\<lparr>perm_draws := drop (length glomeruli) (perm_draws g)\<rparr>"
  have ch: "np_choice (map cid glomeruli) (int conv_dcn) g = (Inr p, g1)"
    using Cons.prems by (simp add: np_choice_def np_permutation_def p_def g1_def)
  have lp: "length p = conv_dcn"
    using Cons.prems by (simp add: p_def length_shuffle)
  let ?m = "map (\<lambda>c. (real_of_int (np_astype_int c), cid i)) p"
  from Cons.IH [OF Cons.prems, of "glom_dcn @ ?m" g1]
  obtain es where es: "glom_dcn_loop glomeruli conv_dcn dcn_glut (glom_dcn @ ?m) g1 =
        Inr ((glom_dcn @ ?m) @ es)"
    "map snd es = concat (map (\<lambda>i. replicate conv_dcn (cid i)) dcn_glut)"
    by blast
  have "glom_dcn_loop glomeruli conv_dcn (i # dcn_glut) glom_dcn g = Inr (glom_dcn @ (?m @ es))"
    using ch es(1) by simp
  moreover have "map snd (?m @ es) = concat (map (\<lambda>i. replicate conv_dcn (cid i)) (i # dcn_glut))"
    using es(2) lp by (simp add: comp_def map_replicate_const)
  ultimately show ?case
    by blast
qed

lemma py_indices_error: "py_indices n idx = Inl e \<Longrightarrow> e = IndexError"
  by (induction idx arbitrary: e) (auto simp: py_index_def split: if_splits sum.splits)

lemma grc_goc_golgi_error:
  "fst (grc_goc_golgi first_granule granules new_granules r_goc_vol OoB_value n_connAA tot_conn
          verbosity golgi s h)
     = Inl e \<Longrightarrow> e = IndexError \<or> e = ValueError"
  unfolding grc_goc_golgi_def Let_def
  by (auto simp: np_delete_def set_rows_def np_choice_def split: prod.splits sum.splits if_splits
      dest: py_indices_error)

lemma for_rows_error:
  assumes "\<And>c s h e. fst (body c s h) = Inl e \<Longrightarrow> P e"
  shows "fst (for_rows body cs s h) = Inl e \<Longrightarrow> P e"
proof (induction cs arbitrary: s h)
  case Nil
  then show ?case by simp
next
  case (Cons c cs)
  obtain r h1 where b: "body c s h = (r, h1)"
    by (cases "body c s h")
  show ?case
  proof (cases r)
    case (Inl e1)
    with b Cons.prems assms [of c s h e1] show ?thesis by simp
  next
    case (Inr s1)
    with b Cons.prems Cons.IH [of s1 h1] show ?thesis by simp
  qed
qed

lemma grc_goc_no_supply_error:
  assumes "length (h ! golgicells) < length (h ! granules)"
    and "granules < length h" and "golgicells < length h"
  shows "fst (connectome_grc_goc first_granule granules golgicells r_goc_vol OoB_value n_connAA n_conn_pf
            tot_conn verbosity g h) \<noteq> Inl SupplyException"
proof
  assume a: "fst (connectome_grc_goc first_granule granules golgicells r_goc_vol OoB_value n_connAA
            n_conn_pf tot_conn verbosity g h) = Inl SupplyException"
  let ?h1 = "h @ [h ! granules]"
  let ?golgis = "fst (np_permutation (?h1 ! golgicells) g)"
  let ?g1 = "snd (np_permutation (?h1 ! golgicells) g)"
  let ?loop = "for_rows (grc_goc_golgi first_granule granules (length h) r_goc_vol OoB_value n_connAA
                 tot_conn verbosity) ?golgis ([], [], False, [], ?g1) ?h1"
  have len: "\<not> length (?h1 ! length h) \<le> length ?golgis"
    using assms by (simp add: np_permutation_def length_shuffle nth_append)
  have "fst ?loop = Inl SupplyException"
    using a len unfolding connectome_grc_goc_def np_copy_def Let_def
    by (simp add: case_prod_beta split: sum.splits)
  then have "SupplyException = IndexError \<or> SupplyException = ValueError"
    by (rule for_rows_error [rotated]) (rule grc_goc_golgi_error)
  then show False
    by simp
qed

text \<open>
  The gate of the sibling block \<^verbatim>\<open>connectome_grc_goc\<close> includes its boundary: in the scenario,
  with radius 2, the entity at distance exactly 2 is a candidate.
\<close>

lemma scenario_AA_candidates:
  "AA_candidates 2 scenario_to0 scenario_from = [0, 1, 2]"
  by code_simp

section \<open>Convergence caps (C1)\<close>

text \<open>
  C1. The claim: with convergence cap \<open>c\<close>, a to-entity receives \<open>min c available\<close> edges and
  no exception is raised when fewer than \<open>c\<close> candidates are available. In
  \<^verbatim>\<open>connectome_glom_grc\<close> this is so (\<open>length_glom_grc_row\<close>). In \<^verbatim>\<open>connectome_glom_dcn\<close>
  it is not: as soon as there is a DCN cell and fewer glomeruli than the convergence, the
  sampling without replacement raises ValueError and no edge list is returned.
\<close>

theorem glom_dcn_undersupply_raises:
  "length glomeruli < conv_dcn \<Longrightarrow> dcn_glut \<noteq> [] \<Longrightarrow>
   connectome_glom_dcn first_glomerulus glomeruli dcn_glut conv_dcn g = Inl ValueError"
  by (cases dcn_glut) (simp_all add: connectome_glom_dcn_def np_choice_def)

theorem glom_dcn_undersupply_raises_witness:
  "length [\<lparr>cid = 0, ctype = 0, cx = 0, cy = 0, cz = 0\<rparr>, \<lparr>cid = 1, ctype = 0, cx = 1, cy = 0, cz = 0\<rparr>] < (3::nat)
   \<and> [\<lparr>cid = 2, ctype = 1, cx = 0, cy = 0, cz = 0\<rparr>] \<noteq> []
   \<and> connectome_glom_dcn 0
        [\<lparr>cid = 0, ctype = 0, cx = 0, cy = 0, cz = 0\<rparr>, \<lparr>cid = 1, ctype = 0, cx = 1, cy = 0, cz = 0\<rparr>]
        [\<lparr>cid = 2, ctype = 1, cx = 0, cy = 0, cz = 0\<rparr>] 3
        \<lparr>perm_draws = [], unif_draws = [], tie_draws = []\<rparr>
      = Inl ValueError"
  using glom_dcn_undersupply_raises
    [of "[\<lparr>cid = 0, ctype = 0, cx = 0, cy = 0, cz = 0\<rparr>, \<lparr>cid = 1, ctype = 0, cx = 1, cy = 0, cz = 0\<rparr>]" 3
        "[\<lparr>cid = 2, ctype = 1, cx = 0, cy = 0, cz = 0\<rparr>]" 0
        "\<lparr>perm_draws = [], unif_draws = [], tie_draws = []\<rparr>"]
  by simp

section \<open>Empty from-population (C4)\<close>

text \<open>
  C4. The claim: with an empty from-population, \<^verbatim>\<open>ConnectomeGlomerulusGranule.connect\<close> and
  \<^verbatim>\<open>ConnectomeGapJunctions.connect\<close> return an empty result without an error. Both read row 0
  of the from-population before anything else, so both raise IndexError.
\<close>

theorem empty_from_population_raises:
  "glom_grc_connect [] granules dend_len n_conn_glom g = Inl IndexError \<and>
   gap_junctions_connect [] limit_xy limit_z divergence g = Inl IndexError"
  by (simp add: glom_grc_connect_def gap_junctions_connect_def)

section \<open>The concrete scenario (C5)\<close>

text \<open>
  C5. The claim: with dendrite length 2 the candidate set of the to-entity at x = 0 is the
  from-entities at x in {0, 1, 2}, that of the to-entity at x = 9 is those at x in {7, 8, 9},
  and no edge crosses between the two clusters. The comment in \<^verbatim>\<open>connectome_glom_grc\<close> reads
  "find all glomeruli at a maximum distance of dendrite_length", and the radius gates of the
  sibling blocks include their boundary (\<open>scenario_AA_candidates\<close>); the test in
  \<^verbatim>\<open>connectome_glom_grc\<close> is \<^verbatim>\<open>distance_vector < 0.\<close>, so the code leaves out the from-entities at
  x = 2 and x = 7, which are at distance exactly 2: whatever the random draws, its candidates
  are those at x in {0, 1} and in {8, 9}, and its edges are these four.
\<close>

theorem scenario_boundary_not_candidate:
  "good_gloms scenario_from 2 scenario_to0 = [0, 1] \<and>
   good_gloms scenario_from 2 scenario_to9 = [8, 9] \<and>
   connectome_glom_grc 0 scenario_from [scenario_to0, scenario_to9] 2 3 g =
     [(0, 10), (1, 10), (8, 11), (9, 11)]"
proof -
  have a: "good_gloms scenario_from 2 scenario_to0 = [0, 1]"
    by code_simp
  have b: "good_gloms scenario_from 2 scenario_to9 = [8, 9]"
    by code_simp
  have r0: "glom_grc_row 0 scenario_from 2 3 scenario_to0 g = ([(0, 10), (1, 10)], g)"
    unfolding glom_grc_row_def Let_def a by (simp add: scenario_to0_def)
  have r9: "\<And>g. glom_grc_row 0 scenario_from 2 3 scenario_to9 g = ([(8, 11), (9, 11)], g)"
    unfolding glom_grc_row_def Let_def b by (simp add: scenario_to9_def)
  have "connectome_glom_grc 0 scenario_from [scenario_to0, scenario_to9] 2 3 g =
     [(0, 10), (1, 10), (8, 11), (9, 11)]"
    by (simp add: connectome_glom_grc_def r0 r9)
  with a b show ?thesis
    by simp
qed

section \<open>TouchDetector (C6, C7)\<close>

text \<open>
  C6. The claim: \<^verbatim>\<open>intersect_compartments\<close> emits an edge for a candidate cell pair exactly when
  one of its compartment pairs intersects. In the namespace of connectivity.py the function
  raises NameError on its first statement, whatever the candidates and the intersections are,
  and emits nothing.
\<close>

theorem intersect_compartments_raises:
  "intersect_compartments connectivity_globals ops candidate_map reversed_map g =
     Inl (NameError ''self'')"
  by (simp add: intersect_compartments_def load_global_def connectivity_globals_def
      connectivity_names_def)

text \<open>
  C7. The claim: the two branches of \<^verbatim>\<open>intersect_cells\<close> produce the same candidate map. In
  the namespace of connectivity.py neither branch is reached: the radius is computed from an
  unbound name.
\<close>

theorem intersect_cells_raises:
  "intersect_cells connectivity_globals get_search_radius self =
     Inl (NameError ''from_cell_type'')"
  by (simp add: intersect_cells_def load_global_def connectivity_globals_def
      connectivity_names_def)

text \<open>Were the two names bound, the mirrored branch would still not return a candidate map.\<close>

lemma intersect_cells_mirrored_raises:
  "globals ''from_cell_type'' = Some a \<Longrightarrow> globals ''to_cell_type'' = Some b \<Longrightarrow>
   \<not> from_count self < to_count self \<Longrightarrow>
   intersect_cells globals get_search_radius self = Inl TypeError"
  by (simp add: intersect_cells_def load_global_def intersect_cells_mirrored_def)

section \<open>Self-edges in same-population strategies (C9)\<close>

text \<open>
  C9. The claim: no edge of \<^verbatim>\<open>ConnectomeGapJunctionsGolgi\<close> joins a cell to itself in
  simulation-id space. \<^verbatim>\<open>connectome_gj_goc\<close> writes the simulation id of the source and the row
  number of the target: with two Golgi cells in range of each other whose ids are 1 and 2, the
  cell with id 1 (row 0) is connected to row 1, and the edge reads (1, 1).
\<close>

theorem gj_goc_self_edge:
  "connectome_gj_goc 1 2 2 2
     [\<lparr>cid = 1, ctype = 0, cx = 0, cy = 0, cz = 0\<rparr>, \<lparr>cid = 2, ctype = 0, cx = 0, cy = 0, cz = 0\<rparr>] 1
   = Inr [(1, 1), (2, 0)]"
  by code_simp

section \<open>ConnectomeGolgiGranule and the relational join (C10)\<close>

text \<open>
  C10. \<^verbatim>\<open>ConnectomeGolgiGranule.connect\<close> emits exactly the relational join of the two prior
  edge sets: as a multiset, its edge list holds the edge \<open>(golgi, granule)\<close> once for every
  glomerulus that a \<open>golgi_to_glomerulus\<close> edge and a \<open>glomerulus_to_granule\<close> edge share
  (\<open>count_relational_join\<close>), and nothing else. The setting is that of the data model: the two
  tags exist, the rows under \<open>glomerulus_to_granule\<close> form a set (no row is repeated), the ids
  of the Golgi population are pairwise different, and every \<open>golgi_to_glomerulus\<close> edge starts
  at a cell of the Golgi population. A repeated \<open>golgi_to_glomerulus\<close> row is allowed: the code
  tests membership of the glomerulus, so the shared glomerulus counts once.
\<close>

theorem goc_grc_connect_relational_join:
  assumes "cell_connections_by_tag ''glomerulus_to_granule'' = Some glom_grc"
    and "cell_connections_by_tag ''golgi_to_glomerulus'' = Some goc_glom"
    and "distinct glom_grc"
    and "distinct (map cid golgis)"
    and "fst ` set goc_glom \<subseteq> cid ` set golgis"
  shows "\<exists>edges. goc_grc_connect cell_connections_by_tag golgis = Inr edges \<and>
           mset edges = relational_join goc_glom glom_grc"
  using assms(1,2) connectome_goc_grc_join [OF assms(3,4,5)]
  by (simp add: goc_grc_connect_def)

theorem goc_grc_connect_relational_join_witness:
  "map_of [(''glomerulus_to_granule'', [(5 :: real, 9 :: real), (6, 9), (7, 8)]),
           (''golgi_to_glomerulus'', [(1, 5), (1, 6), (1, 5)])] ''glomerulus_to_granule''
     = Some [(5, 9), (6, 9), (7, 8)] \<and>
   map_of [(''glomerulus_to_granule'', [(5 :: real, 9 :: real), (6, 9), (7, 8)]),
           (''golgi_to_glomerulus'', [(1, 5), (1, 6), (1, 5)])] ''golgi_to_glomerulus''
     = Some [(1, 5), (1, 6), (1, 5)] \<and>
   distinct [(5 :: real, 9 :: real), (6, 9), (7, 8)] \<and>
   distinct (map cid [\<lparr>cid = 1, ctype = 0, cx = 0, cy = 0, cz = 0\<rparr>]) \<and>
   fst ` set [(1 :: real, 5 :: real), (1, 6), (1, 5)]
     \<subseteq> cid ` set [\<lparr>cid = 1, ctype = 0, cx = 0, cy = 0, cz = 0\<rparr>] \<and>
   (\<exists>edges. goc_grc_connect
        (map_of [(''glomerulus_to_granule'', [(5, 9), (6, 9), (7, 8)]),
                 (''golgi_to_glomerulus'', [(1, 5), (1, 6), (1, 5)])])
        [\<lparr>cid = 1, ctype = 0, cx = 0, cy = 0, cz = 0\<rparr>] = Inr edges \<and>
      mset edges = relational_join [(1, 5), (1, 6), (1, 5)] [(5, 9), (6, 9), (7, 8)])"
proof -
  let ?tags = "map_of [(''glomerulus_to_granule'', [(5 :: real, 9 :: real), (6, 9), (7, 8)]),
           (''golgi_to_glomerulus'', [(1, 5), (1, 6), (1, 5)])]"
  have t1: "?tags ''glomerulus_to_granule'' = Some [(5, 9), (6, 9), (7, 8)]" by simp
  have t2: "?tags ''golgi_to_glomerulus'' = Some [(1, 5), (1, 6), (1, 5)]" by simp
  have a: "distinct [(5 :: real, 9 :: real), (6, 9), (7, 8)]" by simp
  have b: "distinct (map cid [\<lparr>cid = 1, ctype = 0, cx = 0, cy = 0, cz = 0\<rparr>])" by simp
  have c: "fst ` set [(1 :: real, 5 :: real), (1, 6), (1, 5)]
             \<subseteq> cid ` set [\<lparr>cid = 1, ctype = 0, cx = 0, cy = 0, cz = 0\<rparr>]"
    by simp
  from goc_grc_connect_relational_join [OF t1 t2 a b c] t1 t2 a b c
  show ?thesis
    by blast
qed

section \<open>Supply check of ConnectomeGranuleGolgi (C2)\<close>

text \<open>
  C2. The claim: the supply error is raised exactly when the from-population is strictly
  smaller than the to-population, and not when it is at least as large. The test in
  \<^verbatim>\<open>connectome_grc_goc\<close> is \<open>\<le>\<close>: the error is raised, after the working copy is made and
  before any edge is produced, also when the two populations have the same size.
\<close>

theorem grc_goc_supply_error:
  "length (h ! granules) \<le> length (h ! golgicells) \<Longrightarrow> granules < length h \<Longrightarrow>
   golgicells < length h \<Longrightarrow>
   connectome_grc_goc first_granule granules golgicells r_goc_vol OoB_value n_connAA n_conn_pf
       tot_conn verbosity g h
     = (Inl SupplyException, h @ [h ! granules])"
  by (simp add: connectome_grc_goc_def np_copy_def np_permutation_def length_shuffle nth_append)

theorem grc_goc_supply_error_witness:
  "length ([[\<lparr>cid = 0, ctype = 0, cx = 0, cy = 0, cz = 0\<rparr>],
            [\<lparr>cid = 1, ctype = 1, cx = 0, cy = 0, cz = 0\<rparr>]] ! 0)
     \<le> length ([[\<lparr>cid = 0, ctype = 0, cx = 0, cy = 0, cz = 0\<rparr>],
                [\<lparr>cid = 1, ctype = 1, cx = 0, cy = 0, cz = 0\<rparr>]] ! 1)
   \<and> (0::nat) < length [[\<lparr>cid = 0, ctype = 0, cx = 0, cy = 0, cz = 0\<rparr>],
                        [\<lparr>cid = 1, ctype = 1, cx = 0, cy = 0, cz = 0\<rparr>]]
   \<and> (1::nat) < length [[\<lparr>cid = 0, ctype = 0, cx = 0, cy = 0, cz = 0\<rparr>],
                        [\<lparr>cid = 1, ctype = 1, cx = 0, cy = 0, cz = 0\<rparr>]]
   \<and> fst (connectome_grc_goc 0 0 1 1 1000 1 1 2 1
        \<lparr>perm_draws = [], unif_draws = [], tie_draws = []\<rparr>
        [[\<lparr>cid = 0, ctype = 0, cx = 0, cy = 0, cz = 0\<rparr>],
         [\<lparr>cid = 1, ctype = 1, cx = 0, cy = 0, cz = 0\<rparr>]])
     = Inl SupplyException"
  using grc_goc_supply_error
    [of "[[\<lparr>cid = 0, ctype = 0, cx = 0, cy = 0, cz = 0\<rparr>],
          [\<lparr>cid = 1, ctype = 1, cx = 0, cy = 0, cz = 0\<rparr>]]"
        0 1 0 1 1000 1 1 2 1 "\<lparr>perm_draws = [], unif_draws = [], tie_draws = []\<rparr>"]
  by simp

section \<open>Exclusion of accepted glomeruli (C3)\<close>



section \<open>The population arrays are not modified (C8)\<close>

text \<open>
  C8. No \<^verbatim>\<open>connect\<close> modifies a population array: whatever the arrays in the store, the
  parameters, the random draws and the datasets and tags recorded before, and whether the
  method returns or raises, every array that was in the store when a \<^verbatim>\<open>connect\<close> started is
  still there, unchanged, when it ends. The three legacy blocks that write the sentinel,
  \<^verbatim>\<open>connectome_goc_glom\<close>, \<^verbatim>\<open>connectome_grc_goc\<close> and \<^verbatim>\<open>connectome_aa_pc\<close>, write it to the copy
  they allocate; every other block writes only to the result arrays it allocates itself.
\<close>

theorem populations_unchanged:
  "take (length h) (snd (pass_connect h)) = h \<and>
   take (length h) (snd (ConnectomeGlomerulusGranule_connect glomeruli granules dend_len n_conn_glom
      g h)) = h \<and>
   take (length h) (snd (ConnectomeGlomerulusGolgi_connect glomeruli golgis r_goc_vol h)) = h \<and>
   take (length h) (snd (ConnectomeGolgiGlomerulus_connect glomeruli golgis GoCaxon_x GoCaxon_y
      GoCaxon_z r_glom n_conn_goc layer_thickness config_X g h)) = h \<and>
   take (length h) (snd (ConnectomeGranuleGolgi_connect get_parallel_fiber_heights granules golgis
      r_goc_vol config_X aa_convergence pf_convergence verbosity g h)) = h \<and>
   take (length h) (snd (ConnectomeGolgiGranule_connect cell_connections_by_tag golgis h)) = h \<and>
   take (length h) (snd (ConnectomeAscAxonPurkinje_connect granules purkinjes config_X extension_x
      extension_z h)) = h \<and>
   take (length h) (snd (ConnectomePFPurkinje_connect granules purkinjes extension_x h)) = h \<and>
   take (length h) (snd (ConnectomePFInterneuron_connect appends granules interneurons
      dendrite_radius h)) = h \<and>
   take (length h) (snd (ConnectomeBCSCPurkinje_connect baskets stellates purkinjes limit_x limit_z
      convergence g h)) = h \<and>
   take (length h) (snd (ConnectomeGapJunctions_connect from_cells limit_xy limit_z divergence g h)) = h \<and>
   take (length h) (snd (ConnectomeGapJunctionsGolgi_connect golgis r_goc_vol GoCaxon_x GoCaxon_y
      GoCaxon_z h)) = h \<and>
   take (length h) (snd (ConnectomePurkinjeDCN_connect get_dcn_rotations purkinjes dcn_cells
      divergence g h)) = h \<and>
   take (length h) (snd (ConnectomeGlomDCN_connect glomeruli dcn_cells convergence g h)) = h \<and>
   take (length h) (snd (TouchDetector_connect globals get_search_radius self h)) = h \<and>
   take (length h) (snd (Satellite_connect cell_connections_by_tag n_after after_connection to_type
      h)) = h"
  by (intro conjI pass_connect_frame ConnectomeGlomerulusGranule_connect_frame
      ConnectomeGlomerulusGolgi_connect_frame ConnectomeGolgiGlomerulus_connect_frame
      ConnectomeGranuleGolgi_connect_frame ConnectomeGolgiGranule_connect_frame
      ConnectomeAscAxonPurkinje_connect_frame ConnectomePFPurkinje_connect_frame
      ConnectomePFInterneuron_connect_frame ConnectomeBCSCPurkinje_connect_frame
      ConnectomeGapJunctions_connect_frame ConnectomeGapJunctionsGolgi_connect_frame
      ConnectomePurkinjeDCN_connect_frame ConnectomeGlomDCN_connect_frame
      TouchDetector_connect_frame Satellite_connect_frame)

end
